theory Spec2Isabelle
  imports Complex_Main "HOL-Library.Word" "HOL-Library.Sublist"
begin

section \<open>Media ingestion and storage of the blog backend\<close>

text \<open>
  A shallow embedding of \<^verbatim>\<open>internal/media/service/upload.go\<close>,
  \<^verbatim>\<open>internal/media/service/processor.go\<close>, \<^verbatim>\<open>internal/media/model/media.go\<close> and
  the media repository (package \<^verbatim>\<open>repository\<close>). Go's \<^verbatim>\<open>int\<close> is modelled by
  \<^typ>\<open>int\<close>: every integer below is a length, an identifier or a pixel coordinate, far
  from \<open>2^63\<close>. Go strings are byte strings, modelled by \<^typ>\<open>string\<close>. The Chinese
  message texts of the source are represented by the constructors of the datatypes
  \<open>error\<close> and \<open>message\<close>, one constructor per message.
\<close>

subsection \<open>Strings: package \<^verbatim>\<open>strings\<close> and \<^verbatim>\<open>fmt\<close>\<close>

type_synonym byte = "8 word"

definition HasPrefix :: "string \<Rightarrow> string \<Rightarrow> bool" where
  "HasPrefix s p = prefix p s"

definition HasSuffix :: "string \<Rightarrow> string \<Rightarrow> bool" where
  "HasSuffix s p = suffix p s"

definition Contains :: "string \<Rightarrow> string \<Rightarrow> bool" where
  "Contains s sub = sublist sub s"

definition TrimPrefix :: "string \<Rightarrow> string \<Rightarrow> string" where
  "TrimPrefix s p = (if HasPrefix s p then drop (length p) s else s)"

definition TrimSuffix :: "string \<Rightarrow> string \<Rightarrow> string" where
  "TrimSuffix s p = (if HasSuffix s p then take (length s - length p) s else s)"

text \<open>\<^verbatim>\<open>strings.Join(elems, "/")\<close>.\<close>

fun join_slash :: "string list \<Rightarrow> string" where
  "join_slash [] = []"
| "join_slash [e] = e"
| "join_slash (e # es) = e @ CHR ''/'' # join_slash es"

definition hex_digit :: "nat \<Rightarrow> char" where
  "hex_digit d = ''0123456789abcdef'' ! (d mod 16)"

definition dec_digit :: "nat \<Rightarrow> char" where
  "dec_digit d = ''0123456789'' ! (d mod 10)"

text \<open>\<^verbatim>\<open>fmt.Sprintf("%x", n)\<close> for a non-negative \<open>n\<close>: lower-case hexadecimal, no padding.\<close>

function hex_of_nat :: "nat \<Rightarrow> string" where
  "hex_of_nat n = (if n < 16 then [hex_digit n] else hex_of_nat (n div 16) @ [hex_digit n])"
  by pat_completeness auto
termination
  by (relation "measure id") auto

declare hex_of_nat.simps [simp del]

function dec_of_nat :: "nat \<Rightarrow> string" where
  "dec_of_nat n = (if n < 10 then [dec_digit n] else dec_of_nat (n div 10) @ [dec_digit n])"
  by pat_completeness auto
termination
  by (relation "measure id") auto

declare dec_of_nat.simps [simp del]

definition zero_pad :: "nat \<Rightarrow> string \<Rightarrow> string" where
  "zero_pad k s = replicate (k - length s) CHR ''0'' @ s"

text \<open>
  \<^verbatim>\<open>fmt.Sprintf("%x", md5.Sum(content))\<close>: the sixteen bytes of the digest, two
  lower-case hexadecimal digits each, most significant first. The digest is a
  \<^typ>\<open>128 word\<close>.
\<close>

fun hex_digits :: "nat \<Rightarrow> nat \<Rightarrow> string" where
  "hex_digits 0 n = []"
| "hex_digits (Suc k) n = hex_digits k (n div 16) @ [hex_digit n]"

definition hex_of_digest :: "128 word \<Rightarrow> string" where
  "hex_of_digest w = hex_digits 32 (unat w)"

subsection \<open>Paths: package \<^verbatim>\<open>path/filepath\<close> (Unix)\<close>

text \<open>The elements of a path between its slashes, empty elements included.\<close>

function path_elems :: "string \<Rightarrow> string list" where
  "path_elems s =
     (case dropWhile (\<lambda>c. c \<noteq> CHR ''/'') s of
        [] \<Rightarrow> [s]
      | _ # r \<Rightarrow> takeWhile (\<lambda>c. c \<noteq> CHR ''/'') s # path_elems r)"
  by pat_completeness auto
termination
proof (relation "measure length")
  show "wf (measure length)" by simp
next
  fix s :: string and x r
  assume "dropWhile (\<lambda>c. c \<noteq> CHR ''/'') s = x # r"
  then have "length (x # r) \<le> length s"
    by (metis length_dropWhile_le)
  then show "(r, s) \<in> measure length" by simp
qed

declare path_elems.simps [simp del]

text \<open>
  One step of the loop of \<^verbatim>\<open>filepath.Clean\<close>, on the elements kept so far: empty and
  \<^verbatim>\<open>.\<close> elements are dropped; \<^verbatim>\<open>..\<close> removes the last kept element when there is
  one that is not itself \<^verbatim>\<open>..\<close>, is kept at the start of a path that is not rooted, and
  is dropped at the start of a rooted one.
\<close>

definition clean_step :: "bool \<Rightarrow> string list \<Rightarrow> string \<Rightarrow> string list" where
  "clean_step rooted kept e =
     (if e = [] \<or> e = ''.'' then kept
      else if e = ''..'' then
        (if kept \<noteq> [] \<and> last kept \<noteq> ''..'' then butlast kept
         else if \<not> rooted then kept @ [e]
         else kept)
      else kept @ [e])"

definition Clean :: "string \<Rightarrow> string" where
  "Clean p =
     (if p = [] then ''.''
      else let rooted = (hd p = CHR ''/'');
               kept = foldl (clean_step rooted) [] (path_elems p);
               out = (if rooted then ''/'' else []) @ join_slash kept
           in if out = [] then ''.'' else out)"

text \<open>\<^verbatim>\<open>filepath.Join\<close>: the elements from the first non-empty one on, joined and cleaned.\<close>

definition Join :: "string list \<Rightarrow> string" where
  "Join elem =
     (case dropWhile (\<lambda>e. e = []) elem of
        [] \<Rightarrow> []
      | es \<Rightarrow> Clean (join_slash es))"

text \<open>
  \<^verbatim>\<open>filepath.Ext\<close> scans from the end of the path to the last slash and returns the
  suffix that starts at the first dot found.
\<close>

fun ext_scan :: "string \<Rightarrow> string \<Rightarrow> string" where
  "ext_scan [] acc = []"
| "ext_scan (c # r) acc =
     (if c = CHR ''/'' then []
      else if c = CHR ''.'' then c # acc
      else ext_scan r (c # acc))"

definition Ext :: "string \<Rightarrow> string" where
  "Ext p = ext_scan (rev p) []"

definition strip_trailing_slashes :: "string \<Rightarrow> string" where
  "strip_trailing_slashes p = rev (dropWhile (\<lambda>c. c = CHR ''/'') (rev p))"

definition Base :: "string \<Rightarrow> string" where
  "Base p =
     (if p = [] then ''.''
      else let q = strip_trailing_slashes p;
               b = rev (takeWhile (\<lambda>c. c \<noteq> CHR ''/'') (rev q))
           in if b = [] then ''/'' else b)"

definition Dir :: "string \<Rightarrow> string" where
  "Dir p = Clean (rev (dropWhile (\<lambda>c. c \<noteq> CHR ''/'') (rev p)))"

subsection \<open>Data model: \<^verbatim>\<open>model/media.go\<close>\<close>

text \<open>
  A reading of the clock (\<^verbatim>\<open>time.Now()\<close>), broken down into the calendar date and the
  time of day. One reading is passed to each operation.
\<close>

record gotime =
  year :: nat
  month :: nat
  day :: nat
  time_of_day :: nat

text \<open>\<^verbatim>\<open>t.Format("2006/01/02")\<close>.\<close>

definition Format_date :: "gotime \<Rightarrow> string" where
  "Format_date t =
     zero_pad 4 (dec_of_nat (year t)) @ ''/'' @ zero_pad 2 (dec_of_nat (month t)) @ ''/'' @
     zero_pad 2 (dec_of_nat (day t))"

record MediaFile =
  ID :: int
  Filename :: string
  StoragePath :: string
  FileSize :: int
  MimeType :: string
  FileType :: string
  Width :: "int option"
  Height :: "int option"
  Duration :: "int option"
  Hash :: string
  Alt :: string
  Caption :: string
  UploaderID :: "int option"
  Status :: string
  IsPublic :: bool
  CreatedAt :: gotime
  UpdatedAt :: gotime

record MediaUsage =
  usage_ID :: int
  MediaID :: int
  UsageType :: string
  TargetID :: "int option"
  usage_UploaderID :: int
  usage_CreatedAt :: gotime

text \<open>Of the user model only the identifier and the role are read here.\<close>

record User =
  user_ID :: int
  Role :: string

definition IsAdmin :: "User \<Rightarrow> bool" where
  "IsAdmin u = (Role u = ''admin'')"

definition IsImage :: "MediaFile \<Rightarrow> bool" where
  "IsImage m = (FileType m = ''image'')"

text \<open>\<^verbatim>\<open>CanEdit(user *User)\<close>: a nil user is \<open>None\<close>.\<close>

definition CanEdit :: "MediaFile \<Rightarrow> User option \<Rightarrow> bool" where
  "CanEdit m user =
     (case user of
        None \<Rightarrow> False
      | Some u \<Rightarrow>
          if IsAdmin u then True
          else if UploaderID m = Some (user_ID u) then True
          else False)"

definition CanDelete :: "MediaFile \<Rightarrow> User option \<Rightarrow> bool" where
  "CanDelete m user = CanEdit m user"

definition NewMediaFile ::
  "gotime \<Rightarrow> string \<Rightarrow> string \<Rightarrow> string \<Rightarrow> string \<Rightarrow> string \<Rightarrow> int \<Rightarrow> int option \<Rightarrow> MediaFile" where
  "NewMediaFile now filename storagePath mimeType fileType hash fileSize uploaderID =
     \<lparr> ID = 0, Filename = filename, StoragePath = storagePath, FileSize = fileSize,
       MimeType = mimeType, FileType = fileType, Width = None, Height = None, Duration = None,
       Hash = hash, Alt = [], Caption = [], UploaderID = uploaderID, Status = ''active'',
       IsPublic = True, CreatedAt = now, UpdatedAt = now \<rparr>"

definition NewMediaUsage :: "gotime \<Rightarrow> int \<Rightarrow> string \<Rightarrow> int option \<Rightarrow> int \<Rightarrow> MediaUsage" where
  "NewMediaUsage now mediaID usageType targetID uploaderID =
     \<lparr> usage_ID = 0, MediaID = mediaID, UsageType = usageType, TargetID = targetID,
       usage_UploaderID = uploaderID, usage_CreatedAt = now \<rparr>"

definition SetDimensions :: "MediaFile \<Rightarrow> int \<Rightarrow> int \<Rightarrow> MediaFile" where
  "SetDimensions m width height = m\<lparr>Width := Some width, Height := Some height\<rparr>"

definition SetPublic :: "gotime \<Rightarrow> MediaFile \<Rightarrow> bool \<Rightarrow> MediaFile" where
  "SetPublic now m isPublic = m\<lparr>IsPublic := isPublic, UpdatedAt := now\<rparr>"

subsection \<open>The registry and the disk\<close>

text \<open>
  The state the services work on: the two tables, their auto-increment counters, the
  files on disk, and a log of the paths written (\<^verbatim>\<open>os.WriteFile\<close>, \<^verbatim>\<open>os.Create\<close>), one
  entry per write.
\<close>

record state =
  media_files :: "MediaFile list"
  media_usages :: "MediaUsage list"
  next_media_id :: int
  next_usage_id :: int
  disk :: "string \<rightharpoonup> byte list"
  writes :: "string list"

datatype db_error = RecordNotFound | UniqueViolation

text \<open>
  \<^verbatim>\<open>mediaRepository.Create\<close>: an insert with a zero \<open>ID\<close> takes the next identifier.
  The column \<open>hash\<close> carries a unique index (\<^verbatim>\<open>gorm:"...;uniqueIndex"\<close>), so the insert
  fails when a row with the same hash exists, whatever its status. A field that has
  its zero value and a \<^verbatim>\<open>default\<close> tag is inserted, and set in the record, with the
  default: an empty \<open>Status\<close> becomes \<^verbatim>\<open>active\<close> and \<open>IsPublic = False\<close> becomes
  \<open>True\<close> (\<^verbatim>\<open>gorm:"default:true"\<close>), so every inserted row is public. Other failures of
  the database (connection, disk) are not modelled.
\<close>

definition with_defaults :: "MediaFile \<Rightarrow> MediaFile" where
  "with_defaults m =
     m\<lparr>Status := (if Status m = [] then ''active'' else Status m), IsPublic := True\<rparr>"

definition repo_Create :: "state \<Rightarrow> MediaFile \<Rightarrow> (db_error + MediaFile) \<times> state" where
  "repo_Create st m =
     (case find (\<lambda>r. Hash r = Hash m) (media_files st) of
        Some r \<Rightarrow> (Inl UniqueViolation, st)
      | None \<Rightarrow>
          let m' = (with_defaults m)\<lparr>ID := next_media_id st\<rparr>
          in (Inr m', st\<lparr>media_files := media_files st @ [m'],
                          next_media_id := next_media_id st + 1\<rparr>))"

definition repo_GetByID :: "state \<Rightarrow> int \<Rightarrow> db_error + MediaFile" where
  "repo_GetByID st i =
     (case find (\<lambda>r. ID r = i) (media_files st) of
        None \<Rightarrow> Inl RecordNotFound
      | Some r \<Rightarrow> Inr r)"

text \<open>\<^verbatim>\<open>GetByHash\<close> returns nil without an error when no row has the hash.\<close>

definition repo_GetByHash :: "state \<Rightarrow> string \<Rightarrow> db_error + MediaFile option" where
  "repo_GetByHash st h = Inr (find (\<lambda>r. Hash r = h) (media_files st))"

text \<open>\<^verbatim>\<open>Update\<close> is \<^verbatim>\<open>db.Save\<close>: it rewrites the row of that \<open>ID\<close>, or inserts it.\<close>

definition repo_Update :: "state \<Rightarrow> MediaFile \<Rightarrow> (db_error + unit) \<times> state" where
  "repo_Update st m =
     (case find (\<lambda>r. Hash r = Hash m \<and> ID r \<noteq> ID m) (media_files st) of
        Some r \<Rightarrow> (Inl UniqueViolation, st)
      | None \<Rightarrow>
          (case find (\<lambda>r. ID r = ID m) (media_files st) of
             Some r \<Rightarrow>
               (Inr (), st\<lparr>media_files := map (\<lambda>r. if ID r = ID m then m else r) (media_files st)\<rparr>)
           | None \<Rightarrow> (Inr (), st\<lparr>media_files := media_files st @ [m]\<rparr>)))"

definition repo_Delete :: "state \<Rightarrow> int \<Rightarrow> (db_error + unit) \<times> state" where
  "repo_Delete st i = (Inr (), st\<lparr>media_files := filter (\<lambda>r. ID r \<noteq> i) (media_files st)\<rparr>)"

definition repo_SoftDelete :: "state \<Rightarrow> int \<Rightarrow> (db_error + unit) \<times> state" where
  "repo_SoftDelete st i =
     (Inr (), st\<lparr>media_files :=
        map (\<lambda>r. if ID r = i then r\<lparr>Status := ''deleted''\<rparr> else r) (media_files st)\<rparr>)"

definition repo_Restore :: "state \<Rightarrow> int \<Rightarrow> (db_error + unit) \<times> state" where
  "repo_Restore st i =
     (Inr (), st\<lparr>media_files :=
        map (\<lambda>r. if ID r = i then r\<lparr>Status := ''active''\<rparr> else r) (media_files st)\<rparr>)"

definition usage_Create :: "state \<Rightarrow> MediaUsage \<Rightarrow> (db_error + MediaUsage) \<times> state" where
  "usage_Create st u =
     (let u' = u\<lparr>usage_ID := next_usage_id st\<rparr>
      in (Inr u', st\<lparr>media_usages := media_usages st @ [u'],
                      next_usage_id := next_usage_id st + 1\<rparr>))"

definition usage_GetByMediaID :: "state \<Rightarrow> int \<Rightarrow> db_error + MediaUsage list" where
  "usage_GetByMediaID st i = Inr (rev (filter (\<lambda>u. MediaID u = i) (media_usages st)))"

text \<open>\<^verbatim>\<open>os.Remove\<close>; the services ignore its error.\<close>

definition os_Remove :: "state \<Rightarrow> string \<Rightarrow> state" where
  "os_Remove st path = st\<lparr>disk := (disk st)(path := None)\<rparr>"

subsection \<open>Images: package \<^verbatim>\<open>image\<close>\<close>

text \<open>
  A colour is either a \<^verbatim>\<open>color.RGBA\<close>, four bytes, or a colour of any other type,
  given by the four values its method \<^verbatim>\<open>RGBA()\<close> returns. \<^verbatim>\<open>color.RGBAModel.Convert\<close>
  keeps the first as it is and turns the second into the high bytes of its four values.
\<close>

datatype colour =
    RGBA8 byte byte byte byte
  | Foreign "32 word" "32 word" "32 word" "32 word"

definition RGBAModel_Convert :: "colour \<Rightarrow> colour" where
  "RGBAModel_Convert c =
     (case c of
        RGBA8 r g b a \<Rightarrow> c
      | Foreign r g b a \<Rightarrow>
          RGBA8 (ucast (drop_bit 8 r)) (ucast (drop_bit 8 g)) (ucast (drop_bit 8 b))
            (ucast (drop_bit 8 a)))"

text \<open>An image is its bounds and its pixels.\<close>

record rect =
  min_x :: int
  min_y :: int
  max_x :: int
  max_y :: int

text \<open>\<^verbatim>\<open>image.Rect\<close> swaps the coordinates of a rectangle given the wrong way round.\<close>

definition Rect :: "int \<Rightarrow> int \<Rightarrow> int \<Rightarrow> int \<Rightarrow> rect" where
  "Rect x0 y0 x1 y1 =
     \<lparr> min_x = (if x0 > x1 then x1 else x0), min_y = (if y0 > y1 then y1 else y0),
       max_x = (if x0 > x1 then x0 else x1), max_y = (if y0 > y1 then y0 else y1) \<rparr>"

definition Dx :: "rect \<Rightarrow> int" where
  "Dx r = max_x r - min_x r"

definition Dy :: "rect \<Rightarrow> int" where
  "Dy r = max_y r - min_y r"

definition In_rect :: "int \<Rightarrow> int \<Rightarrow> rect \<Rightarrow> bool" where
  "In_rect x y r = (min_x r \<le> x \<and> x < max_x r \<and> min_y r \<le> y \<and> y < max_y r)"

record image =
  Bounds :: rect
  At :: "int \<Rightarrow> int \<Rightarrow> colour"

text \<open>
  \<^verbatim>\<open>(*RGBA).Set\<close> ignores a point outside the bounds and stores the colour converted
  to \<^verbatim>\<open>color.RGBA\<close>.
\<close>

definition Set_pixel :: "image \<Rightarrow> int \<Rightarrow> int \<Rightarrow> colour \<Rightarrow> image" where
  "Set_pixel img x y c =
     (if In_rect x y (Bounds img)
      then img\<lparr>At := (\<lambda>x' y'. if x' = x \<and> y' = y then RGBAModel_Convert c
                              else At img x' y')\<rparr>
      else img)"

text \<open>
  Go's integer division truncates towards zero. Division by zero panics; the
  divisions below run only inside loops whose bound makes the divisor positive.
\<close>

definition go_quot :: "int \<Rightarrow> int \<Rightarrow> int" where
  "go_quot a b = sgn a * sgn b * (\<bar>a\<bar> div \<bar>b\<bar>)"

subsection \<open>Configuration, platform and results\<close>

text \<open>
  The fields of the upload configuration that the two services read
  (\<^verbatim>\<open>s.config.Upload.MaxFileSize\<close>, \<^verbatim>\<open>AllowedTypes\<close>, \<^verbatim>\<open>StoragePath\<close>, \<^verbatim>\<open>BaseURL\<close>).
\<close>

record config =
  MaxFileSize :: int
  AllowedTypes :: "string list"
  cfg_StoragePath :: string
  BaseURL :: string

record FileUploadRequest =
  req_Alt :: string
  req_Caption :: string
  req_IsPublic :: "bool option"
  req_UsageType :: string
  req_TargetID :: "int option"

text \<open>
  What the services call outside this repository's media code, as parameters: the
  request validator (\<^verbatim>\<open>validator.Validate\<close>), the digest \<^verbatim>\<open>md5.Sum\<close>, the two MIME
  detectors of the standard library, whether the file system lets a directory be made
  or a file be written (\<^verbatim>\<open>os.WriteFile\<close>, \<^verbatim>\<open>os.Create\<close>), the image codecs
  (\<^verbatim>\<open>image.Decode\<close> with the format name it reports, \<^verbatim>\<open>jpeg.Encode\<close> with its
  quality, \<^verbatim>\<open>png.Encode\<close>), \<open>None\<close> where they fail, and two facts of the machine:
  whether the run time can allocate a byte slice of a given length (\<^verbatim>\<open>make\<close>), and
  what \<^verbatim>\<open>int(float64(a) * float64(b) / float64(c))\<close> gives beyond the range in which
  \<open>float_scale\<close> below determines it (the conversion of a value that \<^verbatim>\<open>int\<close> cannot
  represent depends on the implementation).
\<close>

record platform =
  Validate :: "FileUploadRequest \<Rightarrow> bool"
  md5_Sum :: "byte list \<Rightarrow> 128 word"
  TypeByExtension :: "string \<Rightarrow> string"
  DetectContentType :: "byte list \<Rightarrow> string"
  MkdirAll_ok :: "string \<Rightarrow> bool"
  WriteFile_ok :: "string \<Rightarrow> bool"
  image_Decode :: "byte list \<Rightarrow> (image \<times> string) option"
  jpeg_Encode :: "image \<Rightarrow> int \<Rightarrow> byte list option"
  png_Encode :: "image \<Rightarrow> byte list option"
  make_ok :: "int \<Rightarrow> bool"
  scale_beyond_exact :: "int \<Rightarrow> int \<Rightarrow> int \<Rightarrow> int"

text \<open>
  One constructor per error the services return. Two are run-time panics, which no
  function of the services recovers: \<open>SliceBoundsPanic\<close>, of a slice expression whose
  bound exceeds the length of the string, and \<open>NewRGBAPanic\<close> (\<open>ImagePanic\<close> once it
  has left \<^verbatim>\<open>ProcessImage\<close>), of \<^verbatim>\<open>image.NewRGBA\<close> on a rectangle whose buffer cannot
  be made.
\<close>

datatype img_error = NoDimensions | EmptyWatermarkText | NewRGBAPanic

datatype error =
    ValidationFailed
  | ReadFailed
  | FileTooLarge int
  | UnsupportedType string
  | HashLookupFailed db_error
  | SaveToDiskFailed
  | CreateRecordFailed db_error
  | MediaNotExist db_error
  | NoEditPermission
  | NoDeletePermission
  | UpdateFailed db_error
  | SoftDeleteFailed db_error
  | DeleteRecordFailed db_error
  | SliceBoundsPanic
  | GetMediaFailed db_error
  | NotAnImage
  | OpenFailed
  | DecodeFailed
  | UnsupportedProcessType string
  | ProcessFailed img_error
  | ImagePanic
  | SaveProcessedFailed
  | CreateProcessedRecordFailed db_error

text \<open>
  The \<^verbatim>\<open>Message\<close> of a result: "file uploaded successfully", "file already exists,
  returning the existing file" and "image processed successfully".
\<close>

datatype message = FileUploaded | FileAlreadyExists | ImageProcessed

record UploadResult =
  res_MediaFile :: MediaFile
  res_URL :: string
  res_Message :: message

subsection \<open>The upload service: \<^verbatim>\<open>service/upload.go\<close>\<close>

definition detectMimeType :: "platform \<Rightarrow> string \<Rightarrow> byte list \<Rightarrow> string" where
  "detectMimeType pf filename content =
     (let mimeType = TypeByExtension pf (Ext filename)
      in if mimeType = [] then DetectContentType pf content else mimeType)"

definition getFileType :: "string \<Rightarrow> string" where
  "getFileType mimeType =
     (if HasPrefix mimeType ''image/'' then ''image''
      else if HasPrefix mimeType ''video/'' then ''video''
      else if HasPrefix mimeType ''audio/'' then ''video''
      else if Contains mimeType ''document'' \<or> Contains mimeType ''pdf'' \<or>
              Contains mimeType ''text'' \<or> Contains mimeType ''spreadsheet'' \<or>
              Contains mimeType ''presentation'' then ''document''
      else ''other'')"

fun allowed_loop :: "string \<Rightarrow> string list \<Rightarrow> bool" where
  "allowed_loop mimeType [] = False"
| "allowed_loop mimeType (allowedType # rest) =
     (if HasPrefix mimeType allowedType then True else allowed_loop mimeType rest)"

definition isAllowedFileType :: "config \<Rightarrow> string \<Rightarrow> bool" where
  "isAllowedFileType cfg mimeType = allowed_loop mimeType (AllowedTypes cfg)"

definition calculateHash :: "platform \<Rightarrow> byte list \<Rightarrow> string" where
  "calculateHash pf content = hex_of_digest (md5_Sum pf content)"

text \<open>
  \<^verbatim>\<open>generateStoragePath\<close>; \<open>None\<close> is the panic of \<^verbatim>\<open>hash[:2]\<close> on a hash shorter than
  two characters.
\<close>

definition generateStoragePath :: "config \<Rightarrow> gotime \<Rightarrow> string \<Rightarrow> string \<Rightarrow> string option" where
  "generateStoragePath cfg now filename hash =
     (if length hash < 2 then None
      else let date = Format_date now;
               prefix = take 2 hash;
               ext = (if Ext filename = [] then ''.bin'' else Ext filename);
               uniqueFilename = drop 2 hash @ ext
           in Some (Join [cfg_StoragePath cfg, date, prefix, uniqueFilename]))"

text \<open>
  \<^verbatim>\<open>saveFileToDisk\<close>: a write that fails is taken to leave no file behind.
\<close>

definition saveFileToDisk :: "platform \<Rightarrow> state \<Rightarrow> string \<Rightarrow> byte list \<Rightarrow> (error + unit) \<times> state" where
  "saveFileToDisk pf st path content =
     (if \<not> MkdirAll_ok pf (Dir path) then (Inl SaveToDiskFailed, st)
      else if \<not> WriteFile_ok pf path then (Inl SaveToDiskFailed, st)
      else (Inr (), st\<lparr>disk := (disk st)(path \<mapsto> content), writes := writes st @ [path]\<rparr>))"

definition generateFileURL :: "config \<Rightarrow> string \<Rightarrow> string" where
  "generateFileURL cfg storagePath =
     (let relativePath = TrimPrefix storagePath (cfg_StoragePath cfg);
          relativePath = TrimPrefix relativePath ''/''
      in BaseURL cfg @ ''/'' @ relativePath)"

text \<open>\<^verbatim>\<open>getImageDimensions\<close> is not implemented in the source: it always fails.\<close>

definition getImageDimensions :: "byte list \<Rightarrow> (int \<times> int) option" where
  "getImageDimensions content = None"

text \<open>
  The metadata of the request, copied onto the new record (lines 153 to 169 of
  \<^verbatim>\<open>upload.go\<close>).
\<close>

definition apply_metadata :: "FileUploadRequest \<Rightarrow> string \<Rightarrow> byte list \<Rightarrow> MediaFile \<Rightarrow> MediaFile" where
  "apply_metadata req fileType content mediaFile =
     (let m1 = (if req_Alt req \<noteq> [] then mediaFile\<lparr>Alt := req_Alt req\<rparr> else mediaFile);
          m2 = (if req_Caption req \<noteq> [] then m1\<lparr>Caption := req_Caption req\<rparr> else m1);
          m3 = (case req_IsPublic req of Some b \<Rightarrow> m2\<lparr>IsPublic := b\<rparr> | None \<Rightarrow> m2)
      in if fileType = ''image'' then
           (case getImageDimensions content of
              Some (width, height) \<Rightarrow> SetDimensions m3 width height
            | None \<Rightarrow> m3)
         else m3)"

text \<open>
  The usage record both branches of \<^verbatim>\<open>UploadFile\<close> create when the request names a
  usage type; a failure of the insert is logged and ignored.
\<close>

definition record_usage :: "gotime \<Rightarrow> state \<Rightarrow> int \<Rightarrow> int \<Rightarrow> FileUploadRequest \<Rightarrow> state" where
  "record_usage now st mediaID uploaderID req =
     (if req_UsageType req \<noteq> [] then
        snd (usage_Create st (NewMediaUsage now mediaID (req_UsageType req) (req_TargetID req) uploaderID))
      else st)"

text \<open>
  \<^verbatim>\<open>UploadFile\<close> from line 133 on: what runs after the lookup by hash has found no row.
  It is a function of its own so that the state it runs in can differ from the state
  the lookup saw, as it does when another upload has been served in between.
\<close>

definition UploadFile_store ::
  "platform \<Rightarrow> config \<Rightarrow> gotime \<Rightarrow> state \<Rightarrow> byte list \<Rightarrow> string \<Rightarrow> string \<Rightarrow> string \<Rightarrow> string \<Rightarrow>
   int \<Rightarrow> FileUploadRequest \<Rightarrow> (error + UploadResult) \<times> state" where
  "UploadFile_store pf cfg now st content filename mimeType fileType hash uploaderID req =
     (case generateStoragePath cfg now filename hash of
        None \<Rightarrow> (Inl SliceBoundsPanic, st)
      | Some storagePath \<Rightarrow>
          (case saveFileToDisk pf st storagePath content of
             (Inl e, st1) \<Rightarrow> (Inl SaveToDiskFailed, st1)
           | (Inr u, st1) \<Rightarrow>
               let mediaFile = apply_metadata req fileType content
                     (NewMediaFile now filename storagePath mimeType fileType hash
                        (int (length content)) (Some uploaderID))
               in (case repo_Create st1 mediaFile of
                     (Inl e, st2) \<Rightarrow> (Inl (CreateRecordFailed e), os_Remove st2 storagePath)
                   | (Inr created, st2) \<Rightarrow>
                       (Inr \<lparr> res_MediaFile = created,
                              res_URL = generateFileURL cfg storagePath,
                              res_Message = FileUploaded \<rparr>,
                        record_usage now st2 (ID created) uploaderID req))))"

text \<open>
  \<^verbatim>\<open>UploadFile\<close>. The reader \<open>file\<close> is the content it yields, or \<open>None\<close> when reading
  fails.
\<close>

definition UploadFile ::
  "platform \<Rightarrow> config \<Rightarrow> gotime \<Rightarrow> state \<Rightarrow> byte list option \<Rightarrow> string \<Rightarrow> int \<Rightarrow>
   FileUploadRequest \<Rightarrow> (error + UploadResult) \<times> state" where
  "UploadFile pf cfg now st file filename uploaderID req =
     (if \<not> Validate pf req then (Inl ValidationFailed, st)
      else case file of
        None \<Rightarrow> (Inl ReadFailed, st)
      | Some content \<Rightarrow>
          if int (length content) > MaxFileSize cfg then (Inl (FileTooLarge (MaxFileSize cfg)), st)
          else let mimeType = detectMimeType pf filename content;
                   fileType = getFileType mimeType
               in if \<not> isAllowedFileType cfg mimeType then (Inl (UnsupportedType mimeType), st)
                  else let hash = calculateHash pf content
                       in (case repo_GetByHash st hash of
                             Inl e \<Rightarrow> (Inl (HashLookupFailed e), st)
                           | Inr (Some existingMedia) \<Rightarrow>
                               (Inr \<lparr> res_MediaFile = existingMedia,
                                      res_URL = generateFileURL cfg (StoragePath existingMedia),
                                      res_Message = FileAlreadyExists \<rparr>,
                                record_usage now st (ID existingMedia) uploaderID req)
                           | Inr None \<Rightarrow>
                               UploadFile_store pf cfg now st content filename mimeType fileType
                                 hash uploaderID req))"

text \<open>
  \<^verbatim>\<open>UpdateMedia\<close>. The source passes \<^verbatim>\<open>nil\<close> to \<^verbatim>\<open>CanEdit\<close>; its parameter \<^verbatim>\<open>userID\<close> is
  not read.
\<close>

definition UpdateMedia ::
  "gotime \<Rightarrow> state \<Rightarrow> int \<Rightarrow> FileUploadRequest \<Rightarrow> int option \<Rightarrow> (error + MediaFile) \<times> state" where
  "UpdateMedia now st i req userID =
     (case repo_GetByID st i of
        Inl e \<Rightarrow> (Inl (MediaNotExist e), st)
      | Inr media \<Rightarrow>
          if \<not> CanEdit media None then (Inl NoEditPermission, st)
          else let m1 = (if req_Alt req \<noteq> [] then media\<lparr>Alt := req_Alt req\<rparr> else media);
                   m2 = (if req_Caption req \<noteq> [] then m1\<lparr>Caption := req_Caption req\<rparr> else m1);
                   m3 = (case req_IsPublic req of Some b \<Rightarrow> SetPublic now m2 b | None \<Rightarrow> m2)
               in (case repo_Update st m3 of
                     (Inl e, st1) \<Rightarrow> (Inl (UpdateFailed e), st1)
                   | (Inr u, st1) \<Rightarrow> (Inr m3, st1)))"

text \<open>
  \<^verbatim>\<open>DeleteMedia\<close>. The source passes \<^verbatim>\<open>nil\<close> to \<^verbatim>\<open>CanDelete\<close>; its parameter \<^verbatim>\<open>userID\<close>
  is not read. A failure to read the usage records is logged and the hard delete
  goes on.
\<close>

definition DeleteMedia :: "state \<Rightarrow> int \<Rightarrow> int option \<Rightarrow> (error + unit) \<times> state" where
  "DeleteMedia st i userID =
     (case repo_GetByID st i of
        Inl e \<Rightarrow> (Inl (MediaNotExist e), st)
      | Inr media \<Rightarrow>
          if \<not> CanDelete media None then (Inl NoDeletePermission, st)
          else let hard = (let st1 = os_Remove st (StoragePath media)
                           in case repo_Delete st1 i of
                                (Inl e, st2) \<Rightarrow> (Inl (DeleteRecordFailed e), st2)
                              | (Inr u, st2) \<Rightarrow> (Inr (), st2))
               in (case usage_GetByMediaID st i of
                     Inl e \<Rightarrow> hard
                   | Inr usages \<Rightarrow>
                       if length usages > 0 then
                         (case repo_SoftDelete st i of
                            (Inl e, st1) \<Rightarrow> (Inl (SoftDeleteFailed e), st1)
                          | (Inr u, st1) \<Rightarrow> (Inr (), st1))
                       else hard))"

subsection \<open>The processor service: \<^verbatim>\<open>service/processor.go\<close>\<close>

record ProcessRequest =
  preq_MediaID :: int
  ProcessType :: string
  preq_Width :: "int option"
  preq_Height :: "int option"
  Quality :: "int option"
  WatermarkText :: string
  OutputFormat :: string

record ProcessResult =
  pres_MediaFile :: MediaFile
  pres_URL :: string
  pres_Message :: message

text \<open>
  \<^verbatim>\<open>image.NewRGBA\<close> computes the length of the pixel buffer with \<^verbatim>\<open>mul3NonNeg\<close>, which
  returns \<open>-1\<close> for a negative argument and when a product overflows, and panics on
  \<open>-1\<close>; then it makes the buffer. \<open>None\<close> is the panic, of either step.
\<close>

definition mul3NonNeg :: "int \<Rightarrow> int \<Rightarrow> int \<Rightarrow> int" where
  "mul3NonNeg x y z =
     (if x < 0 \<or> y < 0 \<or> z < 0 then - 1
      else if x * y \<ge> 2 ^ 64 then - 1
      else if x * y * z \<ge> 2 ^ 64 then - 1
      else if x * y * z \<ge> 2 ^ 63 then - 1
      else x * y * z)"

definition NewRGBA :: "platform \<Rightarrow> rect \<Rightarrow> image option" where
  "NewRGBA pf r =
     (let totalLength = mul3NonNeg 4 (Dx r) (Dy r)
      in if totalLength < 0 then None
         else if \<not> make_ok pf totalLength then None
         else Some \<lparr> Bounds = r, At = (\<lambda>x y. RGBA8 0 0 0 0) \<rparr>)"

text \<open>
  \<^verbatim>\<open>int(float64(a) * float64(b) / float64(c))\<close>. When \<open>\<bar>a * b\<bar> < 2^53\<close> and
  \<open>0 < \<bar>c\<bar> < 2^53\<close> the two conversions and the product are exact in \<^verbatim>\<open>float64\<close>, and
  the correctly rounded quotient has the integer part of the exact quotient (a quotient
  that is not an integer lies at least \<open>1 / \<bar>c\<bar>\<close> below the next integer, more than half
  a unit in the last place); the conversion to \<^verbatim>\<open>int\<close> truncates towards zero. Beyond
  that range (rounded operands, or a zero divisor, which gives an infinity or a NaN)
  the result is the one the platform gives.
\<close>

definition float_scale :: "platform \<Rightarrow> int \<Rightarrow> int \<Rightarrow> int \<Rightarrow> int" where
  "float_scale pf a b c =
     (if c = 0 \<or> \<bar>c\<bar> \<ge> 2 ^ 53 \<or> \<bar>a * b\<bar> \<ge> 2 ^ 53 then scale_beyond_exact pf a b c
      else go_quot (a * b) c)"

text \<open>
  The two nested loops of \<^verbatim>\<open>resizeImage\<close>: nearest-neighbour sampling of the source
  into the target, row by row.
\<close>

definition resize_row :: "image \<Rightarrow> int \<Rightarrow> int \<Rightarrow> int \<Rightarrow> int \<Rightarrow> int \<Rightarrow> image \<Rightarrow> image" where
  "resize_row img originalWidth originalHeight targetWidth targetHeight y targetImg =
     fold (\<lambda>x t. Set_pixel t x y
             (At img (go_quot (x * originalWidth) targetWidth)
                     (go_quot (y * originalHeight) targetHeight)))
          [0..targetWidth - 1] targetImg"

definition resize_loop :: "image \<Rightarrow> int \<Rightarrow> int \<Rightarrow> int \<Rightarrow> int \<Rightarrow> image \<Rightarrow> image" where
  "resize_loop img originalWidth originalHeight targetWidth targetHeight targetImg =
     fold (resize_row img originalWidth originalHeight targetWidth targetHeight)
          [0..targetHeight - 1] targetImg"

text \<open>
  The target size of \<^verbatim>\<open>resizeImage\<close> (lines 209 to 226): a dimension that is not
  given is derived from the other one and the size of the source.
\<close>

definition target_size :: "platform \<Rightarrow> int \<Rightarrow> int \<Rightarrow> int option \<Rightarrow> int option \<Rightarrow> int \<times> int" where
  "target_size pf originalWidth originalHeight width height =
     (case (width, height) of
        (None, None) \<Rightarrow> (originalWidth, originalHeight)
      | (Some w, Some h) \<Rightarrow> (w, h)
      | (Some w, None) \<Rightarrow> (w, float_scale pf originalHeight w originalWidth)
      | (None, Some h) \<Rightarrow> (float_scale pf originalWidth h originalHeight, h))"

definition resizeImage :: "platform \<Rightarrow> image \<Rightarrow> int option \<Rightarrow> int option \<Rightarrow> img_error + image" where
  "resizeImage pf img width height =
     (if width = None \<and> height = None then Inl NoDimensions
      else let originalWidth = Dx (Bounds img);
               originalHeight = Dy (Bounds img)
           in case target_size pf originalWidth originalHeight width height of
                (targetWidth, targetHeight) \<Rightarrow>
                  (case NewRGBA pf (Rect 0 0 targetWidth targetHeight) of
                     None \<Rightarrow> Inl NewRGBAPanic
                   | Some targetImg \<Rightarrow>
                       Inr (resize_loop img originalWidth originalHeight targetWidth
                              targetHeight targetImg)))"

definition compressImage :: "image \<Rightarrow> int option \<Rightarrow> img_error + image" where
  "compressImage img quality = Inr img"

text \<open>
  \<^verbatim>\<open>addWatermark\<close> copies the image onto a new canvas and draws nothing: the source
  says that the watermark is not implemented yet and writes that to the log.
\<close>

definition copy_row :: "image \<Rightarrow> int \<Rightarrow> int \<Rightarrow> image \<Rightarrow> image" where
  "copy_row img width y watermarked =
     fold (\<lambda>x t. Set_pixel t x y (At img x y)) [0..width - 1] watermarked"

definition addWatermark :: "platform \<Rightarrow> image \<Rightarrow> string \<Rightarrow> img_error + image" where
  "addWatermark pf img watermarkText =
     (if watermarkText = [] then Inl EmptyWatermarkText
      else let bounds = Bounds img;
               width = Dx bounds;
               height = Dy bounds
           in case NewRGBA pf bounds of
                None \<Rightarrow> Inl NewRGBAPanic
              | Some watermarked \<Rightarrow>
                  Inr (fold (copy_row img width) [0..height - 1] watermarked))"

definition generateThumbnail :: "platform \<Rightarrow> image \<Rightarrow> int option \<Rightarrow> int option \<Rightarrow> img_error + image" where
  "generateThumbnail pf img width height =
     (if width = None \<and> height = None then resizeImage pf img (Some 200) (Some 200)
      else resizeImage pf img width height)"

text \<open>
  \<^verbatim>\<open>saveProcessedImage\<close> creates the file before it encodes: an output format that is
  neither JPEG nor PNG, or an encoder that fails, leaves the created file behind (taken
  to be empty).
\<close>

definition saveProcessedImage ::
  "platform \<Rightarrow> state \<Rightarrow> image \<Rightarrow> string \<Rightarrow> string \<Rightarrow> int option \<Rightarrow> (error + unit) \<times> state" where
  "saveProcessedImage pf st img path format quality =
     (if \<not> MkdirAll_ok pf (Dir path) then (Inl SaveProcessedFailed, st)
      else if \<not> WriteFile_ok pf path then (Inl SaveProcessedFailed, st)
      else let created = st\<lparr>disk := (disk st)(path \<mapsto> []), writes := writes st @ [path]\<rparr>;
               encoded =
                 (if format = ''jpeg'' \<or> format = ''jpg'' then
                    jpeg_Encode pf img (case quality of Some q \<Rightarrow> q | None \<Rightarrow> 85)
                  else if format = ''png'' then png_Encode pf img
                  else None)
           in case encoded of
                None \<Rightarrow> (Inl SaveProcessedFailed, created)
              | Some bytes \<Rightarrow> (Inr (), created\<lparr>disk := (disk created)(path \<mapsto> bytes)\<rparr>))"

definition generateProcessedImagePath :: "string \<Rightarrow> string \<Rightarrow> string \<Rightarrow> string" where
  "generateProcessedImagePath originalPath processType format =
     (let dir = Dir originalPath;
          filename = Base originalPath;
          nameWithoutExt = TrimSuffix filename (Ext filename)
      in Join [dir, nameWithoutExt @ ''_'' @ processType @ ''.'' @ format])"

definition generateProcessedFilename :: "string \<Rightarrow> string \<Rightarrow> string" where
  "generateProcessedFilename originalFilename processType =
     (let ext = Ext originalFilename;
          nameWithoutExt = TrimSuffix originalFilename ext
      in nameWithoutExt @ ''_'' @ processType @ ext)"

definition getMimeTypeByFormat :: "string \<Rightarrow> string" where
  "getMimeTypeByFormat format =
     (if format = ''jpeg'' \<or> format = ''jpg'' then ''image/jpeg''
      else if format = ''png'' then ''image/png''
      else if format = ''gif'' then ''image/gif''
      else ''image/jpeg'')"

text \<open>
  \<^verbatim>\<open>calculateFileHash\<close> does not read the file: it formats the length of the path. Its
  comment says that the hash of the file should be computed here and that this is a
  simplification.
\<close>

definition calculateFileHash :: "string \<Rightarrow> string" where
  "calculateFileHash filePath = ''processed_'' @ hex_of_nat (length filePath)"

text \<open>The \<^verbatim>\<open>switch\<close> of \<^verbatim>\<open>ProcessImage\<close>; \<open>None\<close> is its \<^verbatim>\<open>default\<close> branch.\<close>

definition process_switch ::
  "platform \<Rightarrow> ProcessRequest \<Rightarrow> image \<Rightarrow> string \<Rightarrow> ((img_error + image) \<times> string) option" where
  "process_switch pf req img format =
     (if ProcessType req = ''resize'' then
        Some (resizeImage pf img (preq_Width req) (preq_Height req), format)
      else if ProcessType req = ''compress'' then
        Some (compressImage img (Quality req), format)
      else if ProcessType req = ''watermark'' then
        Some (addWatermark pf img (WatermarkText req), format)
      else if ProcessType req = ''thumbnail'' then
        Some (generateThumbnail pf img (preq_Width req) (preq_Height req), ''jpeg'')
      else None)"

text \<open>
  \<^verbatim>\<open>ProcessImage\<close> from line 106 on: the processed image is saved and registered as a
  new record.
\<close>

definition register_processed ::
  "platform \<Rightarrow> config \<Rightarrow> gotime \<Rightarrow> state \<Rightarrow> ProcessRequest \<Rightarrow> MediaFile \<Rightarrow> image \<Rightarrow> string \<Rightarrow>
   (error + ProcessResult) \<times> state" where
  "register_processed pf cfg now st req media processedImg format =
     (let outputFormat = (if OutputFormat req \<noteq> [] then OutputFormat req else format);
          processedPath = generateProcessedImagePath (StoragePath media) (ProcessType req) outputFormat
      in case saveProcessedImage pf st processedImg processedPath outputFormat (Quality req) of
           (Inl e, st1) \<Rightarrow> (Inl SaveProcessedFailed, st1)
         | (Inr u, st1) \<Rightarrow>
             let m0 = NewMediaFile now
                        (generateProcessedFilename (Filename media) (ProcessType req))
                        processedPath (getMimeTypeByFormat outputFormat) ''image''
                        (calculateFileHash processedPath) (FileSize media) (UploaderID media);
                 m1 = SetDimensions m0 (Dx (Bounds processedImg)) (Dy (Bounds processedImg));
                 processedMedia = m1\<lparr>Alt := Alt media,
                                      Caption := Caption media @ '' ('' @ ProcessType req @ '')'',
                                      IsPublic := IsPublic media\<rparr>
             in (case repo_Create st1 processedMedia of
                   (Inl e, st2) \<Rightarrow> (Inl (CreateProcessedRecordFailed e), os_Remove st2 processedPath)
                 | (Inr created, st2) \<Rightarrow>
                     (Inr \<lparr> pres_MediaFile = created,
                            pres_URL = generateFileURL cfg processedPath,
                            pres_Message = ImageProcessed \<rparr>, st2)))"

definition ProcessImage ::
  "platform \<Rightarrow> config \<Rightarrow> gotime \<Rightarrow> state \<Rightarrow> ProcessRequest \<Rightarrow> (error + ProcessResult) \<times> state" where
  "ProcessImage pf cfg now st req =
     (case repo_GetByID st (preq_MediaID req) of
        Inl e \<Rightarrow> (Inl (GetMediaFailed e), st)
      | Inr media \<Rightarrow>
          if \<not> IsImage media then (Inl NotAnImage, st)
          else (case disk st (StoragePath media) of
                  None \<Rightarrow> (Inl OpenFailed, st)
                | Some bytes \<Rightarrow>
                    (case image_Decode pf bytes of
                       None \<Rightarrow> (Inl DecodeFailed, st)
                     | Some (img, format) \<Rightarrow>
                         (case process_switch pf req img format of
                            None \<Rightarrow> (Inl (UnsupportedProcessType (ProcessType req)), st)
                          | Some (Inl e, outputFormat) \<Rightarrow>
                              (Inl (if e = NewRGBAPanic then ImagePanic else ProcessFailed e), st)
                          | Some (Inr processedImg, outputFormat) \<Rightarrow>
                              register_processed pf cfg now st req media processedImg outputFormat))))"

subsection \<open>Example inputs\<close>

text \<open>
  A platform, a configuration and a few inputs on which the operations are run below.
  The digest of the example platform is a stand-in: the length of the content. Its
  run time allocates up to \<open>2^30\<close> bytes at once, and beyond the exact range its float
  conversion gives the least \<^verbatim>\<open>int\<close>, as \<^verbatim>\<open>amd64\<close> does.
\<close>

text \<open>
  The example image has \<open>3 \<times> 5\<close> pixels. Its pixel at the origin is of another colour
  type (\<^verbatim>\<open>color.NRGBA{200, 100, 50, 128}\<close>, whose \<^verbatim>\<open>RGBA()\<close> is
  \<open>(25800, 12900, 6450, 32896)\<close>); the others are \<^verbatim>\<open>color.RGBA\<close> values.
\<close>

definition example_image :: image where
  "example_image =
     \<lparr> Bounds = Rect 0 0 3 5,
       At = (\<lambda>x y. if x = 0 \<and> y = 0 then Foreign 25800 12900 6450 32896
                    else RGBA8 10 20 30 255) \<rparr>"

definition example_platform :: platform where
  "example_platform =
     \<lparr> Validate = (\<lambda>req. req_UsageType req \<in> set [''post_avatar'', ''post_cover'', ''post_content'', ''moment_content'', ''user_avatar'']
                      \<and> length (req_Alt req) \<le> 200 \<and> length (req_Caption req) \<le> 500),
       md5_Sum = (\<lambda>content. of_nat (length content)),
       TypeByExtension = (\<lambda>ext. if ext = ''.png'' then ''image/png''
                                else if ext = ''.txt'' then ''text/plain; charset=utf-8''
                                else if ext = ''.exe'' then ''application/x-msdownload'' else []),
       DetectContentType = (\<lambda>content. ''application/octet-stream''),
       MkdirAll_ok = (\<lambda>dir. True),
       WriteFile_ok = (\<lambda>path. True),
       image_Decode = (\<lambda>bytes. if bytes = [] then None else Some (example_image, ''png'')),
       jpeg_Encode = (\<lambda>img q. Some [1, 2]),
       png_Encode = (\<lambda>img. Some [3]),
       make_ok = (\<lambda>n. n \<le> 2 ^ 30),
       scale_beyond_exact = (\<lambda>a b c. - (2 ^ 63)) \<rparr>"

definition example_config :: config where
  "example_config = \<lparr> MaxFileSize = 4, AllowedTypes = [''image/'', ''text/''],
      cfg_StoragePath = ''/srv/uploads'', BaseURL = ''http://localhost:8080/uploads'' \<rparr>"

definition example_request :: FileUploadRequest where
  "example_request = \<lparr> req_Alt = ''a cat'', req_Caption = [], req_IsPublic = None,
      req_UsageType = ''post_cover'', req_TargetID = Some 7 \<rparr>"

definition example_time :: gotime where
  "example_time = \<lparr> year = 2024, month = 3, day = 9, time_of_day = 0 \<rparr>"

definition empty_state :: state where
  "empty_state = \<lparr> media_files = [], media_usages = [], next_media_id = 1, next_usage_id = 1,
      disk = Map.empty, writes = [] \<rparr>"

definition example_row :: MediaFile where
  "example_row =
     \<lparr> ID = 1, Filename = ''cat.png'',
       StoragePath = ''/srv/uploads/2024/03/09/00/000000000000000000000000000003.png'',
       FileSize = 3, MimeType = ''image/png'', FileType = ''image'', Width = None, Height = None,
       Duration = None, Hash = ''00000000000000000000000000000003'', Alt = ''a cat'', Caption = [],
       UploaderID = Some 1, Status = ''active'', IsPublic = True, CreatedAt = example_time,
       UpdatedAt = example_time \<rparr>"

definition example_usage :: MediaUsage where
  "example_usage = \<lparr> usage_ID = 1, MediaID = 1, UsageType = ''post_cover'', TargetID = Some 7,
       usage_UploaderID = 1, usage_CreatedAt = example_time \<rparr>"

text \<open>The state after the upload of the three bytes \<open>1, 2, 3\<close> as \<^verbatim>\<open>cat.png\<close>.\<close>

definition example_state :: state where
  "example_state =
     \<lparr> media_files = [example_row], media_usages = [example_usage], next_media_id = 2,
       next_usage_id = 2,
       disk = [''/srv/uploads/2024/03/09/00/000000000000000000000000000003.png'' \<mapsto> [1, 2, 3]],
       writes = [''/srv/uploads/2024/03/09/00/000000000000000000000000000003.png''] \<rparr>"

definition example_state_unused :: state where
  "example_state_unused = example_state\<lparr>media_usages := []\<rparr>"

text \<open>
  A request to watermark media \<open>1\<close>, and the row and the state that \<open>ProcessImage\<close>
  answers it with on \<open>example_state\<close>.
\<close>

definition watermark_request :: ProcessRequest where
  "watermark_request = \<lparr> preq_MediaID = 1, ProcessType = ''watermark'', preq_Width = None,
     preq_Height = None, Quality = None, WatermarkText = ''demo'', OutputFormat = [] \<rparr>"

definition watermarked_row :: MediaFile where
  "watermarked_row =
     \<lparr> ID = 2, Filename = ''cat_watermark.png'',
       StoragePath = ''/srv/uploads/2024/03/09/00/000000000000000000000000000003_watermark.png'',
       FileSize = 3, MimeType = ''image/png'', FileType = ''image'', Width = Some 3,
       Height = Some 5, Duration = None, Hash = ''processed_47'', Alt = ''a cat'',
       Caption = '' (watermark)'', UploaderID = Some 1, Status = ''active'', IsPublic = True,
       CreatedAt = example_time, UpdatedAt = example_time \<rparr>"

definition watermarked_state :: state where
  "watermarked_state =
     example_state\<lparr>
       disk := (disk example_state)
         (''/srv/uploads/2024/03/09/00/000000000000000000000000000003_watermark.png'' \<mapsto> [3]),
       writes := writes example_state @
         [''/srv/uploads/2024/03/09/00/000000000000000000000000000003_watermark.png''],
       media_files := [example_row, watermarked_row],
       next_media_id := 3\<rparr>"

subsection \<open>The specification's resize rule\<close>

text \<open>
  The size of an image, and the dimension that the specification derives for a resize
  that gives one dimension only: \<open>round (other * requested / same)\<close>, in exact
  arithmetic.
\<close>

definition image_size :: "image \<Rightarrow> int \<times> int" where
  "image_size img = (Dx (Bounds img), Dy (Bounds img))"

definition spec_derived_dimension :: "int \<Rightarrow> int \<Rightarrow> int \<Rightarrow> int" where
  "spec_derived_dimension other requested same =
     round (rat_of_int other * rat_of_int requested / rat_of_int same)"

subsection \<open>The specification's storage layout\<close>

text \<open>
  Hexadecimal strings, and a path element that \<open>Clean\<close> keeps as it is: not empty,
  neither \<^verbatim>\<open>.\<close> nor \<^verbatim>\<open>..\<close>, and without a slash.
\<close>

definition hex_chars :: "char set" where
  "hex_chars = set ''0123456789abcdef''"

definition dec_chars :: "char set" where
  "dec_chars = set ''0123456789''"

definition hex_string :: "string \<Rightarrow> bool" where
  "hex_string s = (set s \<subseteq> hex_chars)"

definition plain_element :: "string \<Rightarrow> bool" where
  "plain_element e = (e \<noteq> [] \<and> e \<noteq> ''.'' \<and> e \<noteq> ''..'' \<and> CHR ''/'' \<notin> set e)"

text \<open>
  The path below the storage root, in the words of the specification: the date as
  \<^verbatim>\<open>YYYY/MM/DD\<close>, the first two characters of the fingerprint, then the rest of the
  fingerprint followed by the extension of the file name, or by \<^verbatim>\<open>.bin\<close> when the file
  name has none.
\<close>

definition spec_relative_path :: "gotime \<Rightarrow> string \<Rightarrow> string \<Rightarrow> string" where
  "spec_relative_path now filename hash =
     zero_pad 4 (dec_of_nat (year now)) @ ''/'' @ zero_pad 2 (dec_of_nat (month now)) @ ''/'' @
     zero_pad 2 (dec_of_nat (day now)) @ ''/'' @ take 2 hash @ ''/'' @ drop 2 hash @
     (if Ext filename = [] then ''.bin'' else Ext filename)"

text \<open>A configuration whose storage root is a relative path written with a leading dot.\<close>

definition relative_config :: config where
  "relative_config = \<lparr> MaxFileSize = 4, AllowedTypes = [''image/'', ''text/''],
      cfg_StoragePath = ''./uploads'', BaseURL = ''http://localhost:8080/media'' \<rparr>"


section \<open>Properties\<close>

subsection \<open>Auxiliary facts\<close>

lemma length_hex_digits: "length (hex_digits k n) = k"
  by (induction k arbitrary: n) simp_all

lemma length_calculateHash: "length (calculateHash pf content) = 32"
  by (simp add: calculateHash_def hex_of_digest_def length_hex_digits)

lemma find_append_None: "find P xs = None \<Longrightarrow> find P (xs @ ys) = find P ys"
  by (induction xs) (auto split: if_splits)

lemma find_append_Some: "find P xs = Some x \<Longrightarrow> find P (xs @ ys) = Some x"
  by (induction xs) (auto split: if_splits)

lemma apply_metadata_Hash: "Hash (apply_metadata req fileType content m) = Hash m"
  by (simp add: apply_metadata_def getImageDimensions_def Let_def split: option.splits)

lemma with_defaults_kept:
  "Hash (with_defaults m) = Hash m" "StoragePath (with_defaults m) = StoragePath m"
  "FileSize (with_defaults m) = FileSize m" "Caption (with_defaults m) = Caption m"
  by (simp_all add: with_defaults_def)

lemma record_usage_unchanged:
  "media_files (record_usage now st i u req) = media_files st"
  "disk (record_usage now st i u req) = disk st"
  "writes (record_usage now st i u req) = writes st"
  "next_media_id (record_usage now st i u req) = next_media_id st"
  by (simp_all add: record_usage_def usage_Create_def Let_def)

lemma UploadFile_store_fresh:
  assumes "find (\<lambda>r. Hash r = hash) (media_files st) = None"
    and "generateStoragePath cfg now filename hash = Some p"
    and "MkdirAll_ok pf (Dir p)" and "WriteFile_ok pf p"
  shows "UploadFile_store pf cfg now st content filename mimeType fileType hash uploaderID req =
     (Inr \<lparr> res_MediaFile =
              (with_defaults (apply_metadata req fileType content
                 (NewMediaFile now filename p mimeType fileType hash (int (length content))
                    (Some uploaderID))))\<lparr>ID := next_media_id st\<rparr>,
            res_URL = generateFileURL cfg p, res_Message = FileUploaded \<rparr>,
      record_usage now
        (st\<lparr>disk := (disk st)(p \<mapsto> content), writes := writes st @ [p],
            media_files := media_files st @
              [(with_defaults (apply_metadata req fileType content
                 (NewMediaFile now filename p mimeType fileType hash (int (length content))
                    (Some uploaderID))))\<lparr>ID := next_media_id st\<rparr>],
            next_media_id := next_media_id st + 1\<rparr>)
        (next_media_id st) uploaderID req)"
proof -
  have h: "Hash (apply_metadata req fileType content
                 (NewMediaFile now filename p mimeType fileType hash (int (length content))
                    (Some uploaderID))) = hash"
    by (simp add: apply_metadata_Hash NewMediaFile_def)
  show ?thesis
    using assms
    by (simp add: UploadFile_store_def saveFileToDisk_def repo_Create_def h Let_def)
qed

lemma UploadFile_existing:
  assumes "Validate pf req"
    and "int (length content) \<le> MaxFileSize cfg"
    and "isAllowedFileType cfg (detectMimeType pf filename content)"
    and "find (\<lambda>r. Hash r = calculateHash pf content) (media_files st) = Some m"
  shows "UploadFile pf cfg now st (Some content) filename uploaderID req =
     (Inr \<lparr> res_MediaFile = m, res_URL = generateFileURL cfg (StoragePath m),
            res_Message = FileAlreadyExists \<rparr>,
      record_usage now st (ID m) uploaderID req)"
  using assms by (simp add: UploadFile_def repo_GetByHash_def Let_def)

lemma UploadFile_missing:
  assumes "Validate pf req"
    and "int (length content) \<le> MaxFileSize cfg"
    and "isAllowedFileType cfg (detectMimeType pf filename content)"
    and "find (\<lambda>r. Hash r = calculateHash pf content) (media_files st) = None"
  shows "UploadFile pf cfg now st (Some content) filename uploaderID req =
     UploadFile_store pf cfg now st content filename (detectMimeType pf filename content)
       (getFileType (detectMimeType pf filename content)) (calculateHash pf content) uploaderID req"
  using assms by (simp add: UploadFile_def repo_GetByHash_def Let_def)

lemma example_hash: "calculateHash example_platform [1, 2, 3] = ''00000000000000000000000000000003''"
  by code_simp

lemma example_path:
  "generateStoragePath example_config example_time ''cat.png'' ''00000000000000000000000000000003'' =
     Some ''/srv/uploads/2024/03/09/00/000000000000000000000000000003.png''"
  by code_simp

lemma example_mime: "detectMimeType example_platform ''cat.png'' content = ''image/png''"
  by (simp add: detectMimeType_def example_platform_def Ext_def)

lemma example_allowed: "isAllowedFileType example_config ''image/png''"
  by (simp add: isAllowedFileType_def example_config_def HasPrefix_def)

lemma example_valid: "Validate example_platform example_request"
  by (simp add: example_platform_def example_request_def)

lemma example_upload:
  "UploadFile example_platform example_config example_time empty_state (Some [1, 2, 3]) ''cat.png'' 1 example_request =
    (Inr \<lparr> res_MediaFile = example_row,
           res_URL = ''http://localhost:8080/uploads/2024/03/09/00/000000000000000000000000000003.png'',
           res_Message = FileUploaded \<rparr>, example_state)"
proof -
  have none: "find (\<lambda>r. Hash r = calculateHash example_platform [1, 2, 3]) (media_files empty_state) = None"
    by (simp add: empty_state_def)
  have size: "int (length [1, 2, 3 :: byte]) \<le> MaxFileSize example_config"
    by (simp add: example_config_def)
  have url: "generateFileURL example_config ''/srv/uploads/2024/03/09/00/000000000000000000000000000003.png'' =
      ''http://localhost:8080/uploads/2024/03/09/00/000000000000000000000000000003.png''"
    by (simp add: generateFileURL_def example_config_def TrimPrefix_def HasPrefix_def)
  have gft: "getFileType ''image/png'' = ''image''"
    by (simp add: getFileType_def HasPrefix_def)
  show ?thesis
    apply (subst UploadFile_missing [OF example_valid size _ none])
     apply (simp add: example_mime example_allowed)
    apply (simp add: example_mime example_hash gft)
    apply (subst UploadFile_store_fresh [OF _ example_path])
       apply (simp_all add: empty_state_def example_platform_def url)
    apply (simp add: apply_metadata_def getImageDimensions_def NewMediaFile_def record_usage_def
        usage_Create_def NewMediaUsage_def example_request_def example_row_def example_state_def
        example_usage_def with_defaults_def Let_def)
    done
qed

subsection \<open>Ingestion\<close>

text \<open>
  Claim C1. Ingesting the same bytes twice. The first call finds no row with the hash
  of the content, writes the bytes at the storage path \<open>p\<close> and inserts the row; the
  second call, with any file name, uploader and valid request, returns the row of the
  first under the same \<open>ID\<close>. The first result carries the message \<open>FileUploaded\<close>,
  the second \<open>FileAlreadyExists\<close>. The second call writes nothing to disk and inserts
  no row: the write log, the disk and the table are those the first call left.
\<close>

theorem UploadFile_idempotent:
  assumes "Validate pf req_a" and "Validate pf req_b"
    and "int (length content) \<le> MaxFileSize cfg"
    and "isAllowedFileType cfg (detectMimeType pf filename_a content)"
    and "isAllowedFileType cfg (detectMimeType pf filename_b content)"
    and "repo_GetByHash st (calculateHash pf content) = Inr None"
    and "generateStoragePath cfg now_a filename_a (calculateHash pf content) = Some p"
    and "MkdirAll_ok pf (Dir p)" and "WriteFile_ok pf p"
  shows "\<exists>r1 st1 r2 st2.
     UploadFile pf cfg now_a st (Some content) filename_a uploader_a req_a = (Inr r1, st1) \<and>
     UploadFile pf cfg now_b st1 (Some content) filename_b uploader_b req_b = (Inr r2, st2) \<and>
     ID (res_MediaFile r2) = ID (res_MediaFile r1) \<and>
     res_Message r1 = FileUploaded \<and> res_Message r2 = FileAlreadyExists \<and>
     writes st1 = writes st @ [p] \<and> disk st1 = (disk st)(p \<mapsto> content) \<and>
     writes st2 = writes st1 \<and> disk st2 = disk st1 \<and> media_files st2 = media_files st1"
proof -
  let ?h = "calculateHash pf content"
  let ?mime = "detectMimeType pf filename_a content"
  let ?m = "(with_defaults (apply_metadata req_a (getFileType ?mime) content
               (NewMediaFile now_a filename_a p ?mime (getFileType ?mime) ?h (int (length content))
                  (Some uploader_a))))\<lparr>ID := next_media_id st\<rparr>"
  let ?st1 = "record_usage now_a
        (st\<lparr>disk := (disk st)(p \<mapsto> content), writes := writes st @ [p],
            media_files := media_files st @ [?m], next_media_id := next_media_id st + 1\<rparr>)
        (next_media_id st) uploader_a req_a"
  have none: "find (\<lambda>r. Hash r = ?h) (media_files st) = None"
    using assms(6) by (simp add: repo_GetByHash_def)
  have first: "UploadFile pf cfg now_a st (Some content) filename_a uploader_a req_a =
      (Inr \<lparr> res_MediaFile = ?m, res_URL = generateFileURL cfg p, res_Message = FileUploaded \<rparr>, ?st1)"
    using UploadFile_missing [OF assms(1) assms(3) assms(4) none]
      UploadFile_store_fresh [OF none assms(7) assms(8) assms(9)]
    by simp
  have hm: "Hash ?m = ?h"
    by (simp add: with_defaults_kept apply_metadata_Hash NewMediaFile_def)
  have found: "find (\<lambda>r. Hash r = ?h) (media_files ?st1) = Some ?m"
    using none hm by (simp add: record_usage_unchanged find_append_None)
  have second: "UploadFile pf cfg now_b ?st1 (Some content) filename_b uploader_b req_b =
      (Inr \<lparr> res_MediaFile = ?m, res_URL = generateFileURL cfg (StoragePath ?m),
             res_Message = FileAlreadyExists \<rparr>,
       record_usage now_b ?st1 (ID ?m) uploader_b req_b)"
    by (rule UploadFile_existing [OF assms(2) assms(3) assms(5) found])
  show ?thesis
    apply (rule exI [of _ "\<lparr> res_MediaFile = ?m, res_URL = generateFileURL cfg p, res_Message = FileUploaded \<rparr>"])
    apply (rule exI [of _ ?st1])
    apply (rule exI [of _ "\<lparr> res_MediaFile = ?m, res_URL = generateFileURL cfg (StoragePath ?m),
             res_Message = FileAlreadyExists \<rparr>"])
    apply (rule exI [of _ "record_usage now_b ?st1 (ID ?m) uploader_b req_b"])
    using first second by (simp add: record_usage_unchanged)
qed

theorem UploadFile_idempotent_witness:
  "Validate example_platform example_request \<and>
   repo_GetByHash empty_state (calculateHash example_platform [1, 2, 3]) = Inr None \<and>
   (\<exists>r1 st1 r2 st2.
     UploadFile example_platform example_config example_time empty_state (Some [1, 2, 3])
       ''cat.png'' 1 example_request = (Inr r1, st1) \<and>
     UploadFile example_platform example_config example_time st1 (Some [1, 2, 3])
       ''copy.png'' 2 example_request = (Inr r2, st2) \<and>
     ID (res_MediaFile r2) = ID (res_MediaFile r1) \<and>
     res_Message r1 = FileUploaded \<and> res_Message r2 = FileAlreadyExists \<and>
     writes st1 = writes empty_state @ [''/srv/uploads/2024/03/09/00/000000000000000000000000000003.png''] \<and>
     disk st1 = (disk empty_state)(''/srv/uploads/2024/03/09/00/000000000000000000000000000003.png'' \<mapsto> [1, 2, 3]) \<and>
     writes st2 = writes st1 \<and> disk st2 = disk st1 \<and> media_files st2 = media_files st1)"
proof -
  have size: "int (length [1, 2, 3 :: byte]) \<le> MaxFileSize example_config"
    by (simp add: example_config_def)
  have t1: "isAllowedFileType example_config (detectMimeType example_platform ''cat.png'' [1, 2, 3])"
    by (simp add: example_mime example_allowed)
  have t2: "isAllowedFileType example_config (detectMimeType example_platform ''copy.png'' [1, 2, 3])"
    by (simp add: detectMimeType_def example_platform_def Ext_def example_allowed)
  have fresh: "repo_GetByHash empty_state (calculateHash example_platform [1, 2, 3]) = Inr None"
    by (simp add: repo_GetByHash_def empty_state_def)
  have path: "generateStoragePath example_config example_time ''cat.png''
      (calculateHash example_platform [1, 2, 3]) =
      Some ''/srv/uploads/2024/03/09/00/000000000000000000000000000003.png''"
    by (simp add: example_hash example_path)
  have mk: "MkdirAll_ok example_platform (Dir ''/srv/uploads/2024/03/09/00/000000000000000000000000000003.png'')"
    by (simp add: example_platform_def)
  have wr: "WriteFile_ok example_platform ''/srv/uploads/2024/03/09/00/000000000000000000000000000003.png''"
    by (simp add: example_platform_def)
  show ?thesis
    using UploadFile_idempotent [where now_b = example_time and uploader_a = 1 and uploader_b = 2,
        OF example_valid example_valid size t1 t2 fresh path mk wr] example_valid fresh
    by simp
qed

text \<open>
  Claim C7. A valid request whose content is longer than \<open>MaxFileSize\<close> is rejected
  with \<open>FileTooLarge\<close>; content of exactly \<open>MaxFileSize\<close> bytes is never rejected with
  \<open>FileTooLarge\<close>; content within the limit whose detected MIME type has none of the
  allowed prefixes is rejected with \<open>UnsupportedType\<close>. Both rejections return the
  state as it was: nothing is written to disk and no row is inserted.
\<close>

theorem UploadFile_rejects:
  assumes "Validate pf req"
  shows "(int (length content) > MaxFileSize cfg \<longrightarrow>
            UploadFile pf cfg now st (Some content) filename uploaderID req =
              (Inl (FileTooLarge (MaxFileSize cfg)), st)) \<and>
         (int (length content) = MaxFileSize cfg \<longrightarrow>
            (\<forall>n. fst (UploadFile pf cfg now st (Some content) filename uploaderID req) \<noteq>
                   Inl (FileTooLarge n))) \<and>
         (int (length content) \<le> MaxFileSize cfg \<and>
          \<not> isAllowedFileType cfg (detectMimeType pf filename content) \<longrightarrow>
            UploadFile pf cfg now st (Some content) filename uploaderID req =
              (Inl (UnsupportedType (detectMimeType pf filename content)), st))"
proof (intro conjI impI allI)
  assume "int (length content) > MaxFileSize cfg"
  with assms show "UploadFile pf cfg now st (Some content) filename uploaderID req =
              (Inl (FileTooLarge (MaxFileSize cfg)), st)"
    by (simp add: UploadFile_def)
next
  fix n
  assume "int (length content) = MaxFileSize cfg"
  with assms show "fst (UploadFile pf cfg now st (Some content) filename uploaderID req) \<noteq>
                   Inl (FileTooLarge n)"
    by (auto simp add: UploadFile_def UploadFile_store_def repo_GetByHash_def saveFileToDisk_def
        repo_Create_def Let_def split: option.splits sum.splits prod.splits if_splits)
next
  assume "int (length content) \<le> MaxFileSize cfg \<and>
          \<not> isAllowedFileType cfg (detectMimeType pf filename content)"
  with assms show "UploadFile pf cfg now st (Some content) filename uploaderID req =
              (Inl (UnsupportedType (detectMimeType pf filename content)), st)"
    by (simp add: UploadFile_def Let_def)
qed

theorem UploadFile_rejects_witness:
  "Validate example_platform example_request \<and>
   int (length [1, 2, 3, 4, 5 :: byte]) > MaxFileSize example_config \<and>
   UploadFile example_platform example_config example_time empty_state (Some [1, 2, 3, 4, 5])
     ''cat.png'' 1 example_request = (Inl (FileTooLarge 4), empty_state) \<and>
   int (length [1, 2, 3, 4 :: byte]) = MaxFileSize example_config \<and>
   fst (UploadFile example_platform example_config example_time empty_state (Some [1, 2, 3, 4])
     ''cat.png'' 1 example_request) \<noteq> Inl (FileTooLarge 4) \<and>
   int (length [1, 2, 3 :: byte]) \<le> MaxFileSize example_config \<and>
   \<not> isAllowedFileType example_config (detectMimeType example_platform ''setup.exe'' [1, 2, 3]) \<and>
   UploadFile example_platform example_config example_time empty_state (Some [1, 2, 3])
     ''setup.exe'' 1 example_request = (Inl (UnsupportedType ''application/x-msdownload''), empty_state)"
proof -
  have exe: "detectMimeType example_platform ''setup.exe'' [1, 2, 3] = ''application/x-msdownload''"
    by (simp add: detectMimeType_def example_platform_def Ext_def)
  have no: "\<not> isAllowedFileType example_config ''application/x-msdownload''"
    by (simp add: isAllowedFileType_def example_config_def HasPrefix_def)
  have max: "MaxFileSize example_config = 4"
    by (simp add: example_config_def)
  show ?thesis
    using UploadFile_rejects [OF example_valid, where content = "[1, 2, 3, 4, 5]" and
        cfg = example_config and now = example_time and st = empty_state and
        filename = "''cat.png''" and uploaderID = 1]
      UploadFile_rejects [OF example_valid, where content = "[1, 2, 3, 4]" and
        cfg = example_config and now = example_time and st = empty_state and
        filename = "''cat.png''" and uploaderID = 1]
      UploadFile_rejects [OF example_valid, where content = "[1, 2, 3]" and
        cfg = example_config and now = example_time and st = empty_state and
        filename = "''setup.exe''" and uploaderID = 1]
    by (simp add: exe no max example_valid)
qed

lemma UploadFile_store_existing:
  assumes "find (\<lambda>r. Hash r = hash) (media_files st) = Some existing"
    and "generateStoragePath cfg now filename hash = Some p"
    and "MkdirAll_ok pf (Dir p)" and "WriteFile_ok pf p"
  shows "UploadFile_store pf cfg now st content filename mimeType fileType hash uploaderID req =
     (Inl (CreateRecordFailed UniqueViolation),
      st\<lparr>disk := (disk st)(p := None), writes := writes st @ [p]\<rparr>)"
proof -
  have h: "Hash (apply_metadata req fileType content
                 (NewMediaFile now filename p mimeType fileType hash (int (length content))
                    (Some uploaderID))) = hash"
    by (simp add: apply_metadata_Hash NewMediaFile_def)
  show ?thesis
    using assms
    by (simp add: UploadFile_store_def saveFileToDisk_def repo_Create_def h os_Remove_def Let_def)
qed

lemma example_row_by_hash:
  "find (\<lambda>r. Hash r = calculateHash example_platform [1, 2, 3]) (media_files example_state) =
     Some example_row"
  by (simp add: example_hash example_state_def example_row_def)

lemma example_path_of_content:
  "generateStoragePath example_config example_time ''cat.png''
      (calculateHash example_platform [1, 2, 3]) =
      Some ''/srv/uploads/2024/03/09/00/000000000000000000000000000003.png''"
  by (simp add: example_hash example_path)

lemma example_platform_permits:
  "MkdirAll_ok example_platform dir" "WriteFile_ok example_platform path"
  by (simp_all add: example_platform_def)

text \<open>
  Claim C3, as the code has it. When the insert of the new row fails because a row with
  the hash exists (the lookup of this upload had found none: another upload of the same
  content was served in between), \<open>UploadFile\<close> removes the file at the storage path it
  has just written and returns the failure of the insert to the caller. It does not
  read the existing row again, and the row of the other upload stays as it was.
\<close>

theorem UploadFile_store_duplicate:
  assumes "find (\<lambda>r. Hash r = hash) (media_files st) = Some existing"
    and "generateStoragePath cfg now filename hash = Some p"
    and "MkdirAll_ok pf (Dir p)" and "WriteFile_ok pf p"
  shows "UploadFile_store pf cfg now st content filename mimeType fileType hash uploaderID req =
     (Inl (CreateRecordFailed UniqueViolation),
      st\<lparr>disk := (disk st)(p := None), writes := writes st @ [p]\<rparr>)"
  using assms by (rule UploadFile_store_existing)

theorem UploadFile_store_duplicate_witness:
  "find (\<lambda>r. Hash r = calculateHash example_platform [1, 2, 3]) (media_files example_state) =
     Some example_row \<and>
   UploadFile_store example_platform example_config example_time example_state [1, 2, 3]
     ''cat.png'' ''image/png'' ''image'' (calculateHash example_platform [1, 2, 3]) 2
     example_request =
     (Inl (CreateRecordFailed UniqueViolation),
      example_state\<lparr>
        disk := (disk example_state)
          (''/srv/uploads/2024/03/09/00/000000000000000000000000000003.png'' := None),
        writes := writes example_state @
          [''/srv/uploads/2024/03/09/00/000000000000000000000000000003.png'']\<rparr>)"
  using UploadFile_store_duplicate [OF example_row_by_hash example_path_of_content
      example_platform_permits] example_row_by_hash
  by simp

text \<open>
  The race on the example: the second upload looks up the hash in the empty registry,
  the first upload runs to its end, and the second one goes on from its line 133. It
  returns an error, not the row of the first.
\<close>

theorem dedup_race_counterexample:
  "repo_GetByHash empty_state (calculateHash example_platform [1, 2, 3]) = Inr None \<and>
   snd (UploadFile example_platform example_config example_time empty_state (Some [1, 2, 3])
          ''cat.png'' 1 example_request) = example_state \<and>
   fst (UploadFile_store example_platform example_config example_time example_state [1, 2, 3]
          ''cat.png'' ''image/png'' ''image'' (calculateHash example_platform [1, 2, 3]) 2
          example_request) = Inl (CreateRecordFailed UniqueViolation)"
proof -
  have "repo_GetByHash empty_state (calculateHash example_platform [1, 2, 3]) = Inr None"
    by (simp add: repo_GetByHash_def empty_state_def)
  moreover have "snd (UploadFile example_platform example_config example_time empty_state
      (Some [1, 2, 3]) ''cat.png'' 1 example_request) = example_state"
    by (simp add: example_upload)
  moreover have "fst (UploadFile_store example_platform example_config example_time example_state
      [1, 2, 3] ''cat.png'' ''image/png'' ''image'' (calculateHash example_platform [1, 2, 3]) 2
      example_request) = Inl (CreateRecordFailed UniqueViolation)"
    by (simp add: UploadFile_store_existing [OF example_row_by_hash example_path_of_content
          example_platform_permits])
  ultimately show ?thesis by simp
qed

text \<open>
  What every insert keeps of the invariant of the registry: no two rows share a hash,
  and the row of an ingestion carries the digest of the bytes written at its path.
\<close>

lemma find_None_Hash: "find (\<lambda>r. Hash r = h) rows = None \<Longrightarrow> h \<notin> set (map Hash rows)"
  by (induction rows) (auto split: if_splits)

lemma repo_Create_distinct_hashes:
  assumes "distinct (map Hash (media_files st))"
  shows "distinct (map Hash (media_files (snd (repo_Create st m))))"
proof (cases "find (\<lambda>r. Hash r = Hash m) (media_files st)")
  case None
  then show ?thesis
    using assms find_None_Hash [OF None] by (simp add: repo_Create_def with_defaults_kept Let_def)
next
  case (Some r)
  then show ?thesis
    using assms by (simp add: repo_Create_def)
qed

lemma UploadFile_store_content_hash:
  assumes "UploadFile_store pf cfg now st content filename mimeType fileType
             (calculateHash pf content) uploaderID req = (Inr r, st')"
  shows "Hash (res_MediaFile r) = calculateHash pf content \<and>
         disk st' (StoragePath (res_MediaFile r)) = Some content"
proof -
  let ?h = "calculateHash pf content"
  obtain p where p: "generateStoragePath cfg now filename ?h = Some p"
    using assms by (cases "generateStoragePath cfg now filename ?h") (simp_all add: UploadFile_store_def)
  have mk: "MkdirAll_ok pf (Dir p)" and wr: "WriteFile_ok pf p"
    using assms p by (auto simp add: UploadFile_store_def saveFileToDisk_def split: if_splits)
  have none: "find (\<lambda>r. Hash r = ?h) (media_files st) = None"
  proof (cases "find (\<lambda>r. Hash r = ?h) (media_files st)")
    case (Some existing)
    from UploadFile_store_existing [OF Some p mk wr] assms show ?thesis by simp
  qed simp
  let ?m = "with_defaults (apply_metadata req fileType content
              (NewMediaFile now filename p mimeType fileType ?h (int (length content))
                 (Some uploaderID)))"
  from UploadFile_store_fresh [OF none p mk wr] assms
  have r: "res_MediaFile r = ?m\<lparr>ID := next_media_id st\<rparr>"
    and st': "disk st' = (disk st)(p \<mapsto> content)"
    by (auto simp add: record_usage_unchanged)
  have "StoragePath ?m = p"
    by (simp add: with_defaults_kept apply_metadata_def getImageDimensions_def NewMediaFile_def
        Let_def split: option.splits)
  then show ?thesis
    using r st' by (simp add: with_defaults_kept apply_metadata_Hash NewMediaFile_def)
qed

subsection \<open>Permissions of update and delete\<close>

text \<open>
  Claim C4. \<open>CanEdit\<close> and \<open>CanDelete\<close> refuse the nil user, which is the user both
  operations pass. So for an existing media \<open>ID\<close> and any caller, \<open>UpdateMedia\<close> and
  \<open>DeleteMedia\<close> return their permission error and the state they were given: the
  row, its fields and the bytes on disk are unchanged.
\<close>

theorem UpdateMedia_DeleteMedia_denied:
  assumes "repo_GetByID st i = Inr media"
  shows "CanEdit media None = False \<and> CanDelete media None = False \<and>
         UpdateMedia now st i req userID = (Inl NoEditPermission, st) \<and>
         DeleteMedia st i userID = (Inl NoDeletePermission, st)"
  using assms by (simp add: UpdateMedia_def DeleteMedia_def CanDelete_def CanEdit_def)

theorem UpdateMedia_DeleteMedia_denied_witness:
  "repo_GetByID example_state 1 = Inr example_row \<and>
   UpdateMedia example_time example_state 1 example_request (Some 1) =
     (Inl NoEditPermission, example_state) \<and>
   DeleteMedia example_state 1 (Some 1) = (Inl NoDeletePermission, example_state)"
proof -
  have row: "repo_GetByID example_state 1 = Inr example_row"
    by (simp add: repo_GetByID_def example_state_def example_row_def)
  show ?thesis
    using UpdateMedia_DeleteMedia_denied [OF row, where now = example_time and
        req = example_request and userID = "Some 1"] row
    by simp
qed

text \<open>
  Claim C2 on the code. Media \<open>1\<close> exists, is owned by user \<open>1\<close> and its bytes are on
  disk. Without any usage record (\<open>example_state_unused\<close>) \<open>DeleteMedia\<close> returns the
  permission error and leaves the row and the bytes; with a usage record
  (\<open>example_state\<close>) it returns the same error and the status stays \<open>active\<close>.
\<close>

theorem DeleteMedia_never_deletes:
  "usage_GetByMediaID example_state_unused 1 = Inr [] \<and>
   DeleteMedia example_state_unused 1 (Some 1) = (Inl NoDeletePermission, example_state_unused) \<and>
   repo_GetByID example_state_unused 1 = Inr example_row \<and>
   disk example_state_unused (StoragePath example_row) = Some [1, 2, 3] \<and>
   usage_GetByMediaID example_state 1 = Inr [example_usage] \<and>
   DeleteMedia example_state 1 (Some 1) = (Inl NoDeletePermission, example_state) \<and>
   Status example_row = ''active''"
  by (simp add: DeleteMedia_def CanDelete_def CanEdit_def repo_GetByID_def usage_GetByMediaID_def
      example_state_unused_def example_state_def example_row_def example_usage_def)

subsection \<open>Transforms\<close>

lemma Set_pixel_Bounds: "Bounds (Set_pixel img x y c) = Bounds img"
  by (simp add: Set_pixel_def)

lemma Set_pixel_At:
  "At (Set_pixel img x y c) x' y' =
     (if x' = x \<and> y' = y \<and> In_rect x y (Bounds img) then RGBAModel_Convert c
      else At img x' y')"
  by (simp add: Set_pixel_def)

lemma fold_row_Bounds: "Bounds (fold (\<lambda>x t. Set_pixel t x y (g x y)) xs t) = Bounds t"
  by (induction xs arbitrary: t) (simp_all add: Set_pixel_Bounds)

lemma fold_rows_Bounds:
  "Bounds (fold (\<lambda>y t. fold (\<lambda>x t. Set_pixel t x y (g x y)) xs t) ys t) = Bounds t"
  by (induction ys arbitrary: t) (simp_all add: fold_row_Bounds)

lemma fold_row_At:
  "At (fold (\<lambda>x t. Set_pixel t x y (g x y)) xs t) x' y' =
     (if y' = y \<and> x' \<in> set xs \<and> In_rect x' y (Bounds t) then RGBAModel_Convert (g x' y)
      else At t x' y')"
proof (induction xs arbitrary: t)
  case Nil
  then show ?case by simp
next
  case (Cons a xs)
  show ?case
    by (auto simp add: Cons.IH Set_pixel_Bounds Set_pixel_At)
qed

lemma fold_rows_At:
  "At (fold (\<lambda>y t. fold (\<lambda>x t. Set_pixel t x y (g x y)) xs t) ys t) x' y' =
     (if y' \<in> set ys \<and> x' \<in> set xs \<and> In_rect x' y' (Bounds t)
      then RGBAModel_Convert (g x' y') else At t x' y')"
proof (induction ys arbitrary: t)
  case Nil
  then show ?case by simp
next
  case (Cons a ys)
  show ?case
    by (auto simp add: Cons.IH fold_row_Bounds fold_row_At)
qed

lemma copy_row_fold:
  "copy_row img width = (\<lambda>y t. fold (\<lambda>x t. Set_pixel t x y (At img x y)) [0..width - 1] t)"
  by (intro ext) (simp add: copy_row_def)

lemma resize_row_fold:
  "resize_row img ow oh tw th =
     (\<lambda>y t. fold (\<lambda>x t. Set_pixel t x y (At img (go_quot (x * ow) tw) (go_quot (y * oh) th)))
              [0..tw - 1] t)"
  by (intro ext) (simp add: resize_row_def)

lemma NewRGBA_Some:
  "NewRGBA pf r = Some c \<Longrightarrow> c = \<lparr> Bounds = r, At = (\<lambda>x y. RGBA8 0 0 0 0) \<rparr>"
  by (auto simp add: NewRGBA_def Let_def split: if_splits)

lemma addWatermark_copy:
  assumes "addWatermark pf img watermarkText = Inr w"
  shows "Bounds w = Bounds img \<and>
     (\<forall>x y. At w x y =
        (if 0 \<le> x \<and> x < Dx (Bounds img) \<and> 0 \<le> y \<and> y < Dy (Bounds img) \<and>
            In_rect x y (Bounds img)
         then RGBAModel_Convert (At img x y) else RGBA8 0 0 0 0))"
proof -
  from assms obtain c where c: "NewRGBA pf (Bounds img) = Some c"
    and w: "w = fold (copy_row img (Dx (Bounds img))) [0..Dy (Bounds img) - 1] c"
    by (auto simp add: addWatermark_def Let_def split: if_splits option.splits)
  from NewRGBA_Some [OF c] have c': "Bounds c = Bounds img" "At c = (\<lambda>x y. RGBA8 0 0 0 0)"
    by simp_all
  show ?thesis
    unfolding w by (auto simp add: copy_row_fold fold_rows_Bounds fold_rows_At c')
qed

lemma addWatermark_succeeds:
  assumes "watermarkText \<noteq> []" and "NewRGBA pf (Bounds img) = Some c"
  shows "\<exists>w. addWatermark pf img watermarkText = Inr w"
  using assms by (simp add: addWatermark_def Let_def)

lemma resize_loop_Bounds:
  "Bounds (resize_loop img ow oh tw th t) = Bounds t"
  by (simp add: resize_loop_def resize_row_fold fold_rows_Bounds)

lemma go_quot_nonneg: "0 \<le> a \<Longrightarrow> 0 < b \<Longrightarrow> go_quot a b = a div b"
  by (cases "a = 0") (simp_all add: go_quot_def)

lemma Rect_origin_size: "0 \<le> w \<Longrightarrow> 0 \<le> h \<Longrightarrow> Dx (Rect 0 0 w h) = w \<and> Dy (Rect 0 0 w h) = h"
  by (simp add: Rect_def Dx_def Dy_def)

lemma example_image_size: "Dx (Bounds example_image) = 3" "Dy (Bounds example_image) = 5"
  by (simp_all add: example_image_def Rect_def Dx_def Dy_def)

lemma float_scale_exact:
  assumes "0 < c" and "c < 2 ^ 53" and "0 \<le> a * b" and "a * b < 2 ^ 53"
  shows "float_scale pf a b c = a * b div c"
  using assms by (simp add: float_scale_def go_quot_nonneg)

lemma resizeImage_on_canvas:
  assumes "width \<noteq> None \<or> height \<noteq> None"
    and "target_size pf (Dx (Bounds img)) (Dy (Bounds img)) width height = (tw, th)"
    and "NewRGBA pf (Rect 0 0 tw th) \<noteq> None" and "0 \<le> tw" and "0 \<le> th"
  shows "map_sum id image_size (resizeImage pf img width height) = Inr (tw, th)"
proof -
  from assms(3) obtain c where c: "NewRGBA pf (Rect 0 0 tw th) = Some c" by auto
  from NewRGBA_Some [OF c] have "Bounds c = Rect 0 0 tw th" by simp
  then show ?thesis
    using assms(1,2,4,5) c
    by (auto simp add: resizeImage_def image_size_def resize_loop_Bounds Rect_origin_size Let_def)
qed

lemma resizeImage_no_canvas:
  assumes "width \<noteq> None \<or> height \<noteq> None"
    and "target_size pf (Dx (Bounds img)) (Dy (Bounds img)) width height = (tw, th)"
    and "NewRGBA pf (Rect 0 0 tw th) = None"
  shows "map_sum id image_size (resizeImage pf img width height) = Inl NewRGBAPanic"
  using assms by (auto simp add: resizeImage_def Let_def)

lemma example_canvas:
  assumes "0 \<le> w" and "w \<le> 1024" and "0 \<le> h" and "h \<le> 1024"
  shows "NewRGBA example_platform (Rect 0 0 w h) \<noteq> None"
proof -
  have "w * h \<le> 1024 * 1024"
    using assms by (intro mult_mono) simp_all
  then have "4 * w * h \<le> 2 ^ 30" by (simp add: mult.commute)
  moreover have "4 * w < 2 ^ 64" using assms(2) by simp
  ultimately show ?thesis
    using assms(1,3)
    by (simp add: NewRGBA_def mul3NonNeg_def Rect_origin_size example_platform_def Let_def
        not_less)
qed

text \<open>
  Claim C5, as the code has it. For a source of size \<open>(w0, h0)\<close>, both positive and
  below \<open>2^53\<close>, and a requested dimension \<open>n \<ge> 0\<close>: a resize that gives only the
  width \<open>n\<close>, with \<open>h0 * n < 2^53\<close>, produces an image of width \<open>n\<close> and height
  \<open>h0 * n div w0\<close>, the quotient rounded down, when \<^verbatim>\<open>image.NewRGBA\<close> can make the
  canvas of that size, and panics when it cannot; a resize that gives only the height
  \<open>n\<close>, with \<open>w0 * n < 2^53\<close>, produces width \<open>w0 * n div h0\<close> and height \<open>n\<close>, or
  panics, in the same way; a resize that gives neither is rejected.
\<close>

theorem resizeImage_derived_dimension:
  assumes "0 < Dx (Bounds img)" and "Dx (Bounds img) < 2 ^ 53"
    and "0 < Dy (Bounds img)" and "Dy (Bounds img) < 2 ^ 53"
    and "0 \<le> n"
  shows "(Dy (Bounds img) * n < 2 ^ 53 \<longrightarrow>
            map_sum id image_size (resizeImage pf img (Some n) None) =
              (if NewRGBA pf (Rect 0 0 n (Dy (Bounds img) * n div Dx (Bounds img))) = None
               then Inl NewRGBAPanic
               else Inr (n, Dy (Bounds img) * n div Dx (Bounds img)))) \<and>
         (Dx (Bounds img) * n < 2 ^ 53 \<longrightarrow>
            map_sum id image_size (resizeImage pf img None (Some n)) =
              (if NewRGBA pf (Rect 0 0 (Dx (Bounds img) * n div Dy (Bounds img)) n) = None
               then Inl NewRGBAPanic
               else Inr (Dx (Bounds img) * n div Dy (Bounds img), n))) \<and>
         resizeImage pf img None None = Inl NoDimensions"
proof (intro conjI impI)
  let ?w0 = "Dx (Bounds img)" and ?h0 = "Dy (Bounds img)"
  assume a: "?h0 * n < 2 ^ 53"
  have nn: "0 \<le> ?h0 * n" using assms by simp
  have fs: "float_scale pf ?h0 n ?w0 = ?h0 * n div ?w0"
    using assms a nn by (simp add: float_scale_exact)
  have d: "0 \<le> ?h0 * n div ?w0"
    using assms nn by (simp add: pos_imp_zdiv_nonneg_iff)
  have ts: "target_size pf ?w0 ?h0 (Some n) None = (n, ?h0 * n div ?w0)"
    by (simp add: target_size_def fs)
  show "map_sum id image_size (resizeImage pf img (Some n) None) =
      (if NewRGBA pf (Rect 0 0 n (?h0 * n div ?w0)) = None then Inl NewRGBAPanic
       else Inr (n, ?h0 * n div ?w0))"
  proof (cases "NewRGBA pf (Rect 0 0 n (?h0 * n div ?w0)) = None")
    case True
    then show ?thesis
      using resizeImage_no_canvas [OF _ ts] by simp
  next
    case False
    then show ?thesis
      using resizeImage_on_canvas [OF _ ts False assms(5) d] by simp
  qed
next
  let ?w0 = "Dx (Bounds img)" and ?h0 = "Dy (Bounds img)"
  assume a: "?w0 * n < 2 ^ 53"
  have nn: "0 \<le> ?w0 * n" using assms by simp
  have fs: "float_scale pf ?w0 n ?h0 = ?w0 * n div ?h0"
    using assms a nn by (simp add: float_scale_exact)
  have d: "0 \<le> ?w0 * n div ?h0"
    using assms nn by (simp add: pos_imp_zdiv_nonneg_iff)
  have ts: "target_size pf ?w0 ?h0 None (Some n) = (?w0 * n div ?h0, n)"
    by (simp add: target_size_def fs)
  show "map_sum id image_size (resizeImage pf img None (Some n)) =
      (if NewRGBA pf (Rect 0 0 (?w0 * n div ?h0) n) = None then Inl NewRGBAPanic
       else Inr (?w0 * n div ?h0, n))"
  proof (cases "NewRGBA pf (Rect 0 0 (?w0 * n div ?h0) n) = None")
    case True
    then show ?thesis
      using resizeImage_no_canvas [OF _ ts] by simp
  next
    case False
    then show ?thesis
      using resizeImage_on_canvas [OF _ ts False d assms(5)] by simp
  qed
next
  show "resizeImage pf img None None = Inl NoDimensions"
    by (simp add: resizeImage_def)
qed

theorem resizeImage_derived_dimension_witness:
  "0 < Dx (Bounds example_image) \<and> Dx (Bounds example_image) < 2 ^ 53 \<and>
   0 < Dy (Bounds example_image) \<and> Dy (Bounds example_image) < 2 ^ 53 \<and>
   Dy (Bounds example_image) * 2 < 2 ^ 53 \<and> Dx (Bounds example_image) * 2 < 2 ^ 53 \<and>
   NewRGBA example_platform (Rect 0 0 2 3) \<noteq> None \<and>
   NewRGBA example_platform (Rect 0 0 1 2) \<noteq> None \<and>
   map_sum id image_size (resizeImage example_platform example_image (Some 2) None) = Inr (2, 3) \<and>
   map_sum id image_size (resizeImage example_platform example_image None (Some 2)) = Inr (1, 2) \<and>
   resizeImage example_platform example_image None None = Inl NoDimensions"
proof -
  have c: "NewRGBA example_platform (Rect 0 0 2 3) \<noteq> None"
    "NewRGBA example_platform (Rect 0 0 1 2) \<noteq> None"
    by (rule example_canvas; simp)+
  show ?thesis
    using resizeImage_derived_dimension [where img = example_image and n = 2 and
        pf = example_platform] c
    by (simp add: example_image_size)
qed

text \<open>
  A source of size \<open>3 \<times> 5\<close> resized to width \<open>1\<close> has height \<open>1\<close>; the rule of the
  specification gives \<open>round (5 / 3) = 2\<close>.
\<close>

theorem resizeImage_rounding_counterexample:
  "map_sum id image_size (resizeImage example_platform example_image (Some 1) None) = Inr (1, 1) \<and>
   spec_derived_dimension 5 1 3 = 2"
proof -
  have ts: "target_size example_platform (Dx (Bounds example_image)) (Dy (Bounds example_image))
      (Some 1) None = (1, 1)"
    by (simp add: target_size_def example_image_size float_scale_def go_quot_def)
  have c: "NewRGBA example_platform (Rect 0 0 1 1) \<noteq> None"
    by (rule example_canvas) simp_all
  have "map_sum id image_size (resizeImage example_platform example_image (Some 1) None) =
      Inr (1, 1)"
    by (rule resizeImage_on_canvas [OF _ ts c]) simp_all
  moreover have "spec_derived_dimension 5 1 3 = 2"
    by (simp add: spec_derived_dimension_def round_def floor_eq_iff)
  ultimately show ?thesis by simp
qed

lemma ProcessImage_success:
  assumes "ProcessImage pf cfg now st req = (Inr r, st')"
  shows "\<exists>media bytes img format processedImg outputFormat.
     repo_GetByID st (preq_MediaID req) = Inr media \<and> IsImage media \<and>
     disk st (StoragePath media) = Some bytes \<and> image_Decode pf bytes = Some (img, format) \<and>
     process_switch pf req img format = Some (Inr processedImg, outputFormat) \<and>
     register_processed pf cfg now st req media processedImg outputFormat = (Inr r, st')"
  using assms
  by (auto simp add: ProcessImage_def split: sum.splits if_splits option.splits prod.splits)

lemma ProcessImage_registers:
  assumes "repo_GetByID st (preq_MediaID req) = Inr media" and "IsImage media"
    and "disk st (StoragePath media) = Some bytes" and "image_Decode pf bytes = Some (img, format)"
    and "process_switch pf req img format = Some (Inr processedImg, outputFormat)"
  shows "ProcessImage pf cfg now st req =
     register_processed pf cfg now st req media processedImg outputFormat"
  using assms by (simp add: ProcessImage_def)

lemma register_processed_success:
  assumes "register_processed pf cfg now st req media processedImg format = (Inr r, st')"
  shows "pres_Message r = ImageProcessed"
    and "FileSize (pres_MediaFile r) = FileSize media"
    and "Hash (pres_MediaFile r) = calculateFileHash (StoragePath (pres_MediaFile r))"
    and "Caption (pres_MediaFile r) = Caption media @ '' ('' @ ProcessType req @ '')''"
  using assms
  by (auto simp add: register_processed_def repo_Create_def with_defaults_def NewMediaFile_def
      SetDimensions_def Let_def split: sum.splits option.splits prod.splits)

lemma example_row_found: "repo_GetByID example_state 1 = Inr example_row"
  by (simp add: repo_GetByID_def example_state_def example_row_def)

lemma watermark_path:
  "generateProcessedImagePath ''/srv/uploads/2024/03/09/00/000000000000000000000000000003.png''
     ''watermark'' ''png'' =
   ''/srv/uploads/2024/03/09/00/000000000000000000000000000003_watermark.png''"
  by code_simp

lemma watermark_hash:
  "calculateFileHash ''/srv/uploads/2024/03/09/00/000000000000000000000000000003_watermark.png'' =
     ''processed_47''"
  by code_simp

lemma watermark_filename: "generateProcessedFilename ''cat.png'' ''watermark'' = ''cat_watermark.png''"
  by code_simp

lemma watermark_url:
  "generateFileURL example_config
     ''/srv/uploads/2024/03/09/00/000000000000000000000000000003_watermark.png'' =
   ''http://localhost:8080/uploads/2024/03/09/00/000000000000000000000000000003_watermark.png''"
  by (simp add: generateFileURL_def example_config_def TrimPrefix_def HasPrefix_def)

lemma example_watermark:
  "ProcessImage example_platform example_config example_time example_state watermark_request =
     (Inr \<lparr> pres_MediaFile = watermarked_row,
            pres_URL = ''http://localhost:8080/uploads/2024/03/09/00/000000000000000000000000000003_watermark.png'',
            pres_Message = ImageProcessed \<rparr>, watermarked_state)"
proof -
  have "NewRGBA example_platform (Rect 0 0 3 5) \<noteq> None"
    by (rule example_canvas) simp_all
  then have "NewRGBA example_platform (Bounds example_image) \<noteq> None"
    by (simp add: example_image_def)
  then obtain c where "NewRGBA example_platform (Bounds example_image) = Some c"
    by auto
  from addWatermark_succeeds [OF _ this, of "''demo''"]
  obtain w where w: "addWatermark example_platform example_image ''demo'' = Inr w"
    by auto
  from addWatermark_copy [OF w] have wb: "Bounds w = Bounds example_image"
    by simp
  have sw: "process_switch example_platform watermark_request example_image ''png'' =
      Some (Inr w, ''png'')"
    by (simp add: process_switch_def watermark_request_def w)
  have img: "IsImage example_row"
    by (simp add: IsImage_def example_row_def)
  have dsk: "disk example_state (StoragePath example_row) = Some [1, 2, 3]"
    by (simp add: example_state_def example_row_def)
  have dec: "image_Decode example_platform [1, 2, 3] = Some (example_image, ''png'')"
    by (simp add: example_platform_def)
  have id1: "repo_GetByID example_state (preq_MediaID watermark_request) = Inr example_row"
    by (simp add: watermark_request_def example_row_found)
  have reg: "register_processed example_platform example_config example_time example_state
      watermark_request example_row w ''png'' =
     (Inr \<lparr> pres_MediaFile = watermarked_row,
            pres_URL = ''http://localhost:8080/uploads/2024/03/09/00/000000000000000000000000000003_watermark.png'',
            pres_Message = ImageProcessed \<rparr>, watermarked_state)"
    by (simp add: register_processed_def watermark_request_def example_row_def watermark_path
        watermark_hash watermark_filename watermark_url saveProcessedImage_def
        example_platform_def getMimeTypeByFormat_def repo_Create_def with_defaults_def
        example_state_def NewMediaFile_def SetDimensions_def wb example_image_size
        watermarked_row_def watermarked_state_def Let_def)
  show ?thesis
    using ProcessImage_registers [OF id1 img dsk dec sw] reg by simp
qed





text \<open>
  Claim C10. The record that a successful \<open>ProcessImage\<close> creates has the \<open>FileSize\<close>
  of the source record, whatever the encoder wrote.
\<close>

theorem ProcessImage_FileSize_of_source:
  assumes "ProcessImage pf cfg now st req = (Inr r, st')"
    and "repo_GetByID st (preq_MediaID req) = Inr media"
  shows "FileSize (pres_MediaFile r) = FileSize media"
proof -
  from ProcessImage_success [OF assms(1)] assms(2)
  obtain processedImg outputFormat where
    "register_processed pf cfg now st req media processedImg outputFormat = (Inr r, st')"
    by auto
  then show ?thesis by (rule register_processed_success(2))
qed

theorem ProcessImage_FileSize_of_source_witness:
  "ProcessImage example_platform example_config example_time example_state watermark_request =
     (Inr \<lparr> pres_MediaFile = watermarked_row,
            pres_URL = ''http://localhost:8080/uploads/2024/03/09/00/000000000000000000000000000003_watermark.png'',
            pres_Message = ImageProcessed \<rparr>, watermarked_state) \<and>
   repo_GetByID example_state (preq_MediaID watermark_request) = Inr example_row \<and>
   FileSize watermarked_row = 3 \<and> FileSize example_row = 3 \<and>
   disk watermarked_state (StoragePath watermarked_row) = Some [3]"
proof -
  have row: "repo_GetByID example_state (preq_MediaID watermark_request) = Inr example_row"
    by (simp add: watermark_request_def example_row_found)
  have "FileSize example_row = 3"
    by (simp add: example_row_def)
  moreover have "disk watermarked_state (StoragePath watermarked_row) = Some [3]"
    by (simp add: watermarked_state_def watermarked_row_def)
  ultimately show ?thesis
    using ProcessImage_FileSize_of_source [OF example_watermark row] example_watermark row
    by simp
qed

text \<open>
  Claim C6 on the code. An insert never makes two rows share a hash, and an ingestion
  stores the digest of its content (\<open>repo_Create_distinct_hashes\<close>,
  \<open>UploadFile_store_content_hash\<close>). The registration of a derived image does not: the
  record registered for the watermarked example image has the hash \<^verbatim>\<open>processed_47\<close>,
  the length of its path in hexadecimal, while the bytes at its path are the encoder's
  output; the hash is not the digest of these bytes.
\<close>

theorem derived_hash_is_not_content_hash:
  "ProcessImage example_platform example_config example_time example_state watermark_request =
     (Inr \<lparr> pres_MediaFile = watermarked_row,
            pres_URL = ''http://localhost:8080/uploads/2024/03/09/00/000000000000000000000000000003_watermark.png'',
            pres_Message = ImageProcessed \<rparr>, watermarked_state) \<and>
   Hash watermarked_row = ''processed_47'' \<and>
   disk watermarked_state (StoragePath watermarked_row) = Some [3] \<and>
   Hash watermarked_row \<noteq> calculateHash example_platform [3]"
proof -
  have h: "Hash watermarked_row = ''processed_47''"
    by (simp add: watermarked_row_def)
  have "length (Hash watermarked_row) \<noteq> length (calculateHash example_platform [3])"
    by (simp add: h length_calculateHash)
  then have "Hash watermarked_row \<noteq> calculateHash example_platform [3]"
    by auto
  moreover have "disk watermarked_state (StoragePath watermarked_row) = Some [3]"
    by (simp add: watermarked_state_def watermarked_row_def)
  ultimately show ?thesis
    using example_watermark h by simp
qed

subsection \<open>Storage layout\<close>

lemma path_elems_no_slash: "CHR ''/'' \<notin> set e \<Longrightarrow> path_elems e = [e]"
proof -
  assume "CHR ''/'' \<notin> set e"
  then have "dropWhile (\<lambda>c. c \<noteq> CHR ''/'') e = []"
    by (auto simp add: dropWhile_eq_Nil_conv)
  then show ?thesis
    by (subst path_elems.simps) (simp only: list.case)
qed

lemma path_elems_append:
  "path_elems (a @ CHR ''/'' # b) = path_elems a @ path_elems b"
proof (induction a rule: path_elems.induct)
  case (1 s)
  show ?case
  proof (cases "dropWhile (\<lambda>c. c \<noteq> CHR ''/'') s")
    case Nil
    then have ns: "\<forall>c\<in>set s. c \<noteq> CHR ''/''"
      by (simp add: dropWhile_eq_Nil_conv)
    then have d: "dropWhile (\<lambda>c. c \<noteq> CHR ''/'') (s @ CHR ''/'' # b) = CHR ''/'' # b"
      by (simp add: dropWhile_append)
    have t: "takeWhile (\<lambda>c. c \<noteq> CHR ''/'') (s @ CHR ''/'' # b) = s"
      using ns by (simp add: takeWhile_append)
    have "path_elems (s @ CHR ''/'' # b) = s # path_elems b"
      by (subst path_elems.simps) (simp only: d t list.case)
    moreover have "path_elems s = [s]"
      by (subst path_elems.simps) (simp only: Nil list.case)
    ultimately show ?thesis by simp
  next
    case (Cons x r)
    have "\<not> hd (dropWhile (\<lambda>c. c \<noteq> CHR ''/'') s) \<noteq> CHR ''/''"
      using Cons hd_dropWhile [of "\<lambda>c. c \<noteq> CHR ''/''" s] by simp
    then have x: "x = CHR ''/''"
      using Cons by simp
    have "x \<in> set (dropWhile (\<lambda>c. c \<noteq> CHR ''/'') s)"
      using Cons by simp
    then have mem: "CHR ''/'' \<in> set s"
      using x set_dropWhileD by fastforce
    have d: "dropWhile (\<lambda>c. c \<noteq> CHR ''/'') (s @ CHR ''/'' # b) = CHR ''/'' # r @ CHR ''/'' # b"
      using dropWhile_append1 [of "CHR ''/''" s "\<lambda>c. c \<noteq> CHR ''/''" "CHR ''/'' # b"] mem Cons x
      by simp
    have t: "takeWhile (\<lambda>c. c \<noteq> CHR ''/'') (s @ CHR ''/'' # b) = takeWhile (\<lambda>c. c \<noteq> CHR ''/'') s"
      using takeWhile_append1 [of "CHR ''/''" s "\<lambda>c. c \<noteq> CHR ''/''" "CHR ''/'' # b"] mem
      by simp
    have "path_elems (s @ CHR ''/'' # b) =
        takeWhile (\<lambda>c. c \<noteq> CHR ''/'') s # path_elems (r @ CHR ''/'' # b)"
      by (subst path_elems.simps) (simp only: d t list.case)
    also have "\<dots> = takeWhile (\<lambda>c. c \<noteq> CHR ''/'') s # (path_elems r @ path_elems b)"
      by (simp only: "1.IH" [OF Cons])
    also have "\<dots> = path_elems s @ path_elems b"
      by (subst (2) path_elems.simps) (simp only: Cons list.case append_Cons)
    finally show ?thesis .
  qed
qed

lemma clean_step_plain: "plain_element e \<Longrightarrow> clean_step rooted kept e = kept @ [e]"
  by (simp add: clean_step_def plain_element_def)

lemma foldl_clean_step_plain:
  "list_all plain_element es \<Longrightarrow>
     foldl (clean_step rooted) kept es = kept @ es"
  by (induction es arbitrary: kept) (simp_all add: clean_step_plain)

lemma join_slash_append:
  "xs \<noteq> [] \<Longrightarrow> ys \<noteq> [] \<Longrightarrow> join_slash (xs @ ys) = join_slash xs @ CHR ''/'' # join_slash ys"
  by (induction xs rule: join_slash.induct) (auto simp add: neq_Nil_conv)

lemma ext_scan_no_slash: "CHR ''/'' \<notin> set acc \<Longrightarrow> CHR ''/'' \<notin> set (ext_scan r acc)"
  by (induction r arbitrary: acc) auto

lemma Ext_no_slash: "CHR ''/'' \<notin> set (Ext p)"
  by (simp add: Ext_def ext_scan_no_slash)

lemma hex_chars_plain: "CHR ''.'' \<notin> hex_chars" "CHR ''/'' \<notin> hex_chars"
  by (simp_all add: hex_chars_def)

lemma dec_chars_plain: "CHR ''.'' \<notin> dec_chars" "CHR ''/'' \<notin> dec_chars" "CHR ''0'' \<in> dec_chars"
  by (simp_all add: dec_chars_def)

lemma dec_digit_range: "dec_digit d \<in> dec_chars"
proof -
  have "d mod 10 < length ''0123456789''" by simp
  then show ?thesis unfolding dec_digit_def dec_chars_def by (rule nth_mem)
qed

lemma dec_of_nat_digits: "dec_of_nat n \<noteq> [] \<and> set (dec_of_nat n) \<subseteq> dec_chars"
proof (induction n rule: dec_of_nat.induct)
  case (1 n)
  show ?case
  proof (cases "n < 10")
    case True
    then have "dec_of_nat n = [dec_digit n]"
      by (subst dec_of_nat.simps) simp
    then show ?thesis using dec_digit_range [of n] by simp
  next
    case False
    then have "dec_of_nat n = dec_of_nat (n div 10) @ [dec_digit n]"
      by (subst dec_of_nat.simps) simp
    then show ?thesis using "1.IH" [OF False] dec_digit_range [of n] by simp
  qed
qed

lemma plain_element_from:
  assumes "s \<noteq> []" and "set s \<subseteq> A" and "CHR ''.'' \<notin> A" and "CHR ''/'' \<notin> A"
  shows "plain_element s"
proof -
  from assms(1) obtain c t where s: "s = c # t" by (cases s) auto
  with assms(2) have "c \<in> A" by simp
  with assms(3) have c: "c \<noteq> CHR ''.''" by blast
  have "CHR ''/'' \<notin> set s" using assms(2,4) by blast
  with s c show ?thesis by (simp add: plain_element_def)
qed

lemma zero_pad_plain: "plain_element (zero_pad k (dec_of_nat n))"
proof (rule plain_element_from [where A = dec_chars])
  show "zero_pad k (dec_of_nat n) \<noteq> []"
    using dec_of_nat_digits [of n] by (simp add: zero_pad_def)
  have "set (replicate (k - length (dec_of_nat n)) CHR ''0'') \<subseteq> dec_chars"
    using dec_chars_plain(3) by (simp add: set_replicate_conv_if)
  then show "set (zero_pad k (dec_of_nat n)) \<subseteq> dec_chars"
    using dec_of_nat_digits [of n] by (simp add: zero_pad_def)
qed (rule dec_chars_plain)+

lemma hex_prefix_plain:
  assumes "hex_string hash" and "2 < length hash"
  shows "plain_element (take 2 hash)"
proof (rule plain_element_from [where A = hex_chars])
  show "take 2 hash \<noteq> []" using assms(2) by auto
  show "set (take 2 hash) \<subseteq> hex_chars"
    using assms(1) set_take_subset [of 2 hash] by (simp add: hex_string_def)
qed (rule hex_chars_plain)+

lemma unique_filename_plain:
  assumes "hex_string hash" and "2 < length hash"
  shows "plain_element (drop 2 hash @ (if Ext filename = [] then ''.bin'' else Ext filename))"
proof -
  let ?ext = "if Ext filename = [] then ''.bin'' else Ext filename"
  have sub: "set (drop 2 hash) \<subseteq> hex_chars"
    using assms(1) set_drop_subset [of 2 hash] by (simp add: hex_string_def)
  have ne: "drop 2 hash \<noteq> []" using assms(2) by simp
  have pl: "plain_element (drop 2 hash)"
    by (rule plain_element_from [OF ne sub hex_chars_plain])
  from ne obtain c t where d: "drop 2 hash = c # t"
    by (cases "drop 2 hash") auto
  with pl have c: "c \<noteq> CHR ''.''"
    using sub hex_chars_plain(1) by auto
  have "CHR ''/'' \<notin> set (drop 2 hash)" using pl by (simp add: plain_element_def)
  moreover have "CHR ''/'' \<notin> set ?ext" using Ext_no_slash [of filename] by simp
  ultimately have "CHR ''/'' \<notin> set (drop 2 hash @ ?ext)" by simp
  then show ?thesis
    unfolding plain_element_def d using c by simp
qed

lemma plain_no_slash: "plain_element e \<Longrightarrow> path_elems e = [e]"
  by (simp add: plain_element_def path_elems_no_slash)

lemma path_elems_layout:
  assumes "plain_element y" "plain_element m" "plain_element d" "plain_element p" "plain_element n"
  shows "path_elems (rt @ CHR ''/'' # y @ CHR ''/'' # m @ CHR ''/'' # d @ CHR ''/'' # p @ CHR ''/'' # n) =
     path_elems rt @ [y, m, d, p, n]"
  using assms by (simp add: path_elems_append plain_no_slash)

lemma Clean_layout:
  assumes clean: "Clean rt = rt" and "rt \<noteq> ''/''" and "rt \<noteq> ''.''"
    and plain: "list_all plain_element es" and "es \<noteq> []"
    and elems: "path_elems whole = path_elems rt @ es" and hd: "hd whole = hd rt" "whole \<noteq> []"
  shows "Clean whole = rt @ CHR ''/'' # join_slash es"
proof -
  let ?rooted = "hd rt = CHR ''/''"
  let ?kept = "foldl (clean_step ?rooted) [] (path_elems rt)"
  let ?root = "if ?rooted then ''/'' else []"
  have ne: "rt \<noteq> []"
    using clean by (auto simp add: Clean_def)
  have out: "rt = ?root @ join_slash ?kept"
    using clean ne assms(3) by (auto simp add: Clean_def Let_def split: if_splits)
  have kept: "?kept \<noteq> []"
  proof
    assume "?kept = []"
    with out have "rt = ?root" by simp
    with ne assms(2) show False by (auto split: if_splits)
  qed
  have fold: "foldl (clean_step ?rooted) [] (path_elems whole) = ?kept @ es"
    by (simp add: elems foldl_clean_step_plain [OF plain])
  have "?root @ join_slash (?kept @ es) = ?root @ join_slash ?kept @ CHR ''/'' # join_slash es"
    by (simp add: join_slash_append [OF kept assms(5)])
  also have "\<dots> = rt @ CHR ''/'' # join_slash es"
    using out by simp
  finally have res: "?root @ join_slash (?kept @ es) = rt @ CHR ''/'' # join_slash es" .
  have "Clean whole =
      (if ?root @ join_slash (?kept @ es) = [] then ''.'' else ?root @ join_slash (?kept @ es))"
    unfolding Clean_def Let_def using hd fold by simp
  then show ?thesis
    by (simp only: res) simp
qed

lemma generateStoragePath_layout:
  assumes "hex_string hash" and "2 < length hash"
    and "Clean (cfg_StoragePath cfg) = cfg_StoragePath cfg"
    and "cfg_StoragePath cfg \<noteq> ''/''" and "cfg_StoragePath cfg \<noteq> ''.''"
  shows "generateStoragePath cfg now filename hash =
     Some (cfg_StoragePath cfg @ ''/'' @ spec_relative_path now filename hash)"
proof -
  let ?rt = "cfg_StoragePath cfg"
  let ?y = "zero_pad 4 (dec_of_nat (year now))"
  let ?m = "zero_pad 2 (dec_of_nat (month now))"
  let ?d = "zero_pad 2 (dec_of_nat (day now))"
  let ?p = "take 2 hash"
  let ?n = "drop 2 hash @ (if Ext filename = [] then ''.bin'' else Ext filename)"
  let ?whole = "?rt @ CHR ''/'' # ?y @ CHR ''/'' # ?m @ CHR ''/'' # ?d @ CHR ''/'' # ?p @ CHR ''/'' # ?n"
  have ne: "?rt \<noteq> []"
    using assms(3) by (auto simp add: Clean_def)
  have pl: "plain_element ?y" "plain_element ?m" "plain_element ?d" "plain_element ?p"
    "plain_element ?n"
    using zero_pad_plain hex_prefix_plain [OF assms(1,2)] unique_filename_plain [OF assms(1,2)]
    by simp_all
  have el: "path_elems ?whole = path_elems ?rt @ [?y, ?m, ?d, ?p, ?n]"
    by (rule path_elems_layout [OF pl])
  have "Clean ?whole = ?rt @ CHR ''/'' # join_slash [?y, ?m, ?d, ?p, ?n]"
    by (rule Clean_layout [OF assms(3-5) _ _ el]) (use pl ne in simp_all)
  moreover have "Join [?rt, Format_date now, ?p, ?n] = Clean ?whole"
    using ne by (simp add: Join_def Format_date_def)
  ultimately show ?thesis
    using assms(2) by (simp add: generateStoragePath_def spec_relative_path_def Let_def)
qed

lemma generateFileURL_layout:
  "generateFileURL cfg (cfg_StoragePath cfg @ ''/'' @ rel) = BaseURL cfg @ ''/'' @ rel"
  by (simp add: generateFileURL_def TrimPrefix_def HasPrefix_def Let_def)

lemma hex_digit_range: "hex_digit d \<in> hex_chars"
proof -
  have "d mod 16 < length ''0123456789abcdef''" by simp
  then show ?thesis unfolding hex_digit_def hex_chars_def by (rule nth_mem)
qed

lemma hex_digits_range: "set (hex_digits k n) \<subseteq> hex_chars"
  by (induction k arbitrary: n) (simp_all add: hex_digit_range)

lemma calculateHash_hex_string:
  "hex_string (calculateHash pf content) \<and> length (calculateHash pf content) = 32"
  by (simp add: calculateHash_def hex_of_digest_def hex_string_def hex_digits_range length_hex_digits)

lemma example_relative_path:
  "spec_relative_path example_time ''cat.png'' ''00000000000000000000000000000003'' =
     ''2024/03/09/00/000000000000000000000000000003.png''"
  by code_simp

lemma example_hash_hex: "hex_string ''00000000000000000000000000000003''"
  by (simp add: hex_string_def hex_chars_def)

lemma example_clean_root_layout:
  "generateStoragePath example_config example_time ''cat.png'' ''00000000000000000000000000000003'' =
     Some ''/srv/uploads/2024/03/09/00/000000000000000000000000000003.png'' \<and>
   generateFileURL example_config ''/srv/uploads/2024/03/09/00/000000000000000000000000000003.png'' =
     ''http://localhost:8080/uploads/2024/03/09/00/000000000000000000000000000003.png''"
proof -
  have root: "cfg_StoragePath example_config = ''/srv/uploads''"
    and base: "BaseURL example_config = ''http://localhost:8080/uploads''"
    by (simp_all add: example_config_def)
  have clean: "Clean (cfg_StoragePath example_config) = cfg_StoragePath example_config"
    unfolding root by code_simp
  have n1: "cfg_StoragePath example_config \<noteq> ''/''" and n2: "cfg_StoragePath example_config \<noteq> ''.''"
    by (simp_all add: root)
  have len: "2 < length ''00000000000000000000000000000003''"
    by simp
  show ?thesis
    using generateStoragePath_layout [OF example_hash_hex len clean n1 n2, where now = example_time
        and filename = "''cat.png''"]
      generateFileURL_layout [where cfg = example_config and
        rel = "spec_relative_path example_time ''cat.png'' ''00000000000000000000000000000003''"]
    by (simp add: example_relative_path root base)
qed

text \<open>
  Claim C9 on the code. With the storage root \<^verbatim>\<open>./uploads\<close>, the default of the
  configuration, \<^verbatim>\<open>filepath.Join\<close> returns the cleaned path \<^verbatim>\<open>uploads/2024/...\<close>. The
  configured root is no prefix of that path, so \<^verbatim>\<open>strings.TrimPrefix\<close> removes nothing
  and the URL that \<open>generateFileURL\<close> returns keeps the directory of the root, where the
  claim, and the comment of \<open>generateFileURL\<close> (remove the storage path prefix, generate
  the relative path), have the path relative to the root: the base URL, a slash and
  \<^verbatim>\<open>2024/03/09/00/...\<close>. The storage path differs from the claimed one as a string only,
  it names the same file. For a storage root in cleaned form other than \<^verbatim>\<open>/\<close> and \<^verbatim>\<open>.\<close>
  both are as claimed (\<open>generateStoragePath_layout\<close>, \<open>generateFileURL_layout\<close>).
\<close>

theorem generateFileURL_keeps_storage_root:
  "cfg_StoragePath relative_config = ''./uploads'' \<and>
   generateStoragePath relative_config example_time ''cat.png'' ''00000000000000000000000000000003'' =
     Some ''uploads/2024/03/09/00/000000000000000000000000000003.png'' \<and>
   generateFileURL relative_config ''uploads/2024/03/09/00/000000000000000000000000000003.png'' =
     ''http://localhost:8080/media/uploads/2024/03/09/00/000000000000000000000000000003.png'' \<and>
   cfg_StoragePath relative_config @ ''/'' @
     spec_relative_path example_time ''cat.png'' ''00000000000000000000000000000003'' =
     ''./uploads/2024/03/09/00/000000000000000000000000000003.png'' \<and>
   BaseURL relative_config @ ''/'' @
     spec_relative_path example_time ''cat.png'' ''00000000000000000000000000000003'' =
     ''http://localhost:8080/media/2024/03/09/00/000000000000000000000000000003.png''"
proof -
  have "generateStoragePath relative_config example_time ''cat.png''
      ''00000000000000000000000000000003'' =
     Some ''uploads/2024/03/09/00/000000000000000000000000000003.png''"
    by code_simp
  moreover have "generateFileURL relative_config
      ''uploads/2024/03/09/00/000000000000000000000000000003.png'' =
     ''http://localhost:8080/media/uploads/2024/03/09/00/000000000000000000000000000003.png''"
    by (simp add: generateFileURL_def relative_config_def TrimPrefix_def HasPrefix_def)
  ultimately show ?thesis
    by (simp add: example_relative_path relative_config_def)
qed

end
